theory Spec2Isabelle
  imports Main "HOL-Library.Word"
begin

unbundle bit_operations_syntax

section \<open>The XICS interrupt controller of hw/xics.c\<close>

text \<open>
  A shallow embedding of the presentation layer (ICP) and the source layer (ICS) of
  \<^verbatim>\<open>hw/xics.c\<close>. The two C structures \<^verbatim>\<open>icp_state\<close> and \<^verbatim>\<open>ics_state\<close> point to each
  other and are always used together, so the model keeps them in one record that every
  function takes and returns.

  \<^item> \<^verbatim>\<open>uint32_t\<close> is \<open>32 word\<close>, \<^verbatim>\<open>uint8_t\<close> is \<open>8 word\<close>, \<^verbatim>\<open>target_ulong\<close> is
    \<open>64 word\<close>; C \<^verbatim>\<open>int\<close> values that are only used as array indices and interrupt
    numbers are \<open>int\<close>.
  \<^item> The arrays \<^verbatim>\<open>icp->ss\<close> and \<^verbatim>\<open>ics->irqs\<close> are lists; \<^verbatim>\<open>nr_servers\<close> and
    \<^verbatim>\<open>nr_irqs\<close> are their lengths (the arrays are allocated with exactly that many
    elements and never resized).
  \<^item> A pointer \<^verbatim>\<open>icp->ss + server\<close> or \<^verbatim>\<open>ics->irqs + srcno\<close> is the index; every C
    function dereferences it, which is undefined behaviour when the index is outside
    the array. The model returns \<open>None\<close> there, and for a failed \<^verbatim>\<open>assert\<close>: \<open>None\<close>
    means that the C code has no defined successor state.
  \<^item> The output pin of a presenter is an external sink that is driven with
    \<^verbatim>\<open>qemu_irq_raise\<close>, \<^verbatim>\<open>qemu_irq_lower\<close> and \<^verbatim>\<open>qemu_set_irq\<close>. The field \<open>output_pin\<close> (for \<^verbatim>\<open>output\<close>, a keyword of Isabelle)
    holds the level last driven; \<open>pin_trace\<close> is a history variable that lists every
    such call, most recent first, as the presenter index and the presenter's registers
    at the moment of the call. No function of the model reads \<open>pin_trace\<close>.
  \<^item> \<^verbatim>\<open>XICS_IPI\<close> is defined in \<^verbatim>\<open>hw/xics.h\<close>, which is not among the sources at hand;
    it is the parameter \<open>ipi\<close> of every function that uses it.
\<close>

subsection \<open>Data\<close>

record icp_server_state =
  xirr :: "32 word"
  pending_priority :: "8 word"
  mfrr :: "8 word"
  output_pin :: bool

record ics_irq_state =
  server :: int
  priority :: "8 word"
  saved_priority :: "8 word"
  status :: "8 word"
  lsi :: bool

record xics_state =
  ss :: "icp_server_state list"
  irqs :: "ics_irq_state list"
  offset :: int
  pin_trace :: "(int \<times> icp_server_state) list"

definition XISR_MASK :: "32 word" where
  "XISR_MASK = 0x00ffffff"

definition CPPR_MASK :: "32 word" where
  "CPPR_MASK = 0xff000000"

definition XISR :: "icp_server_state \<Rightarrow> 32 word" where
  "XISR s = xirr s AND XISR_MASK"

definition CPPR :: "icp_server_state \<Rightarrow> 32 word" where
  "CPPR s = drop_bit 24 (xirr s)"

definition XICS_STATUS_ASSERTED :: "8 word" where
  "XICS_STATUS_ASSERTED = 0x1"

definition XICS_STATUS_SENT :: "8 word" where
  "XICS_STATUS_SENT = 0x2"

definition XICS_STATUS_REJECTED :: "8 word" where
  "XICS_STATUS_REJECTED = 0x4"

definition XICS_STATUS_MASKED_PENDING :: "8 word" where
  "XICS_STATUS_MASKED_PENDING = 0x8"

subsection \<open>Array access\<close>

definition nr_servers :: "xics_state \<Rightarrow> int" where
  "nr_servers st = int (length (ss st))"

definition nr_irqs :: "xics_state \<Rightarrow> int" where
  "nr_irqs st = int (length (irqs st))"

definition ss_valid :: "xics_state \<Rightarrow> int \<Rightarrow> bool" where
  "ss_valid st sv \<longleftrightarrow> 0 \<le> sv \<and> sv < nr_servers st"

definition get_ss :: "xics_state \<Rightarrow> int \<Rightarrow> icp_server_state" where
  "get_ss st sv = ss st ! nat sv"

definition upd_ss :: "xics_state \<Rightarrow> int \<Rightarrow> (icp_server_state \<Rightarrow> icp_server_state) \<Rightarrow> xics_state" where
  "upd_ss st sv f = st\<lparr>ss := (ss st)[nat sv := f (ss st ! nat sv)]\<rparr>"

definition irq_valid :: "xics_state \<Rightarrow> int \<Rightarrow> bool" where
  "irq_valid st srcno \<longleftrightarrow> 0 \<le> srcno \<and> srcno < nr_irqs st"

definition get_irq :: "xics_state \<Rightarrow> int \<Rightarrow> ics_irq_state" where
  "get_irq st srcno = irqs st ! nat srcno"

definition upd_irq :: "xics_state \<Rightarrow> int \<Rightarrow> (ics_irq_state \<Rightarrow> ics_irq_state) \<Rightarrow> xics_state" where
  "upd_irq st srcno f = st\<lparr>irqs := (irqs st)[nat srcno := f (irqs st ! nat srcno)]\<rparr>"

subsection \<open>The output pin\<close>

text \<open>
  \<^verbatim>\<open>qemu_set_irq(ss->output, level)\<close>: drive the pin of presenter \<open>sv\<close> and record the call
  with the presenter's registers at that moment. \<^verbatim>\<open>qemu_irq_raise\<close> and
  \<^verbatim>\<open>qemu_irq_lower\<close> are the calls with level 1 and 0.
\<close>

definition qemu_set_irq :: "xics_state \<Rightarrow> int \<Rightarrow> bool \<Rightarrow> xics_state" where
  "qemu_set_irq st sv level =
     (let st' = upd_ss st sv (\<lambda>s. s\<lparr>output_pin := level\<rparr>)
      in st'\<lparr>pin_trace := (sv, get_ss st' sv) # pin_trace st'\<rparr>)"

definition qemu_irq_raise :: "xics_state \<Rightarrow> int \<Rightarrow> xics_state" where
  "qemu_irq_raise st sv = qemu_set_irq st sv True"

definition qemu_irq_lower :: "xics_state \<Rightarrow> int \<Rightarrow> xics_state" where
  "qemu_irq_lower st sv = qemu_set_irq st sv False"

subsection \<open>ICS: reject and end of interrupt\<close>

definition ics_reject :: "xics_state \<Rightarrow> int \<Rightarrow> xics_state option" where
  "ics_reject st nr =
     (let srcno = nr - offset st in
      if irq_valid st srcno
      then Some (upd_irq st srcno (\<lambda>irq.
             irq\<lparr>status := (status irq OR XICS_STATUS_REJECTED) AND NOT XICS_STATUS_SENT\<rparr>))
      else None)"

definition ics_eoi :: "xics_state \<Rightarrow> int \<Rightarrow> xics_state option" where
  "ics_eoi st nr =
     (let srcno = nr - offset st in
      if irq_valid st srcno
      then (if lsi (get_irq st srcno)
            then Some (upd_irq st srcno (\<lambda>irq. irq\<lparr>status := status irq AND NOT XICS_STATUS_SENT\<rparr>))
            else Some st)
      else None)"

subsection \<open>ICP: delivery to a presenter\<close>

text \<open>
  \<^verbatim>\<open>icp_irq\<close>. The comparison \<^verbatim>\<open>priority >= CPPR(ss)\<close> is between a \<^verbatim>\<open>uint8_t\<close> and a
  \<^verbatim>\<open>uint32_t\<close>, so it is an unsigned 32-bit comparison; \<^verbatim>\<open>XISR(ss)\<close> is below \<open>2^24\<close>, so
  passing it as the \<^verbatim>\<open>int nr\<close> of \<^verbatim>\<open>ics_reject\<close> keeps its value.
\<close>

definition icp_irq :: "xics_state \<Rightarrow> int \<Rightarrow> int \<Rightarrow> 8 word \<Rightarrow> xics_state option" where
  "icp_irq st sv nr prio =
     (if \<not> ss_valid st sv then None
      else if CPPR (get_ss st sv) \<le> ucast prio
              \<or> (XISR (get_ss st sv) \<noteq> 0 \<and> pending_priority (get_ss st sv) \<le> prio)
      then ics_reject st nr
      else
        (case (if XISR (get_ss st sv) \<noteq> 0 then ics_reject st (uint (XISR (get_ss st sv)))
               else Some st) of
           None \<Rightarrow> None
         | Some st1 \<Rightarrow>
             Some (qemu_irq_raise
                    (upd_ss st1 sv (\<lambda>s. s\<lparr>xirr := (xirr s AND NOT XISR_MASK) OR (word_of_int nr AND XISR_MASK),
                                           pending_priority := prio\<rparr>))
                    sv)))"

text \<open>
  \<^verbatim>\<open>icp_accept\<close> takes a pointer to one presenter; the caller \<^verbatim>\<open>h_xirr\<close> passes
  \<^verbatim>\<open>icp->ss + cpu_index\<close>. The C expression \<^verbatim>\<open>ss->pending_priority << 24\<close> shifts a promoted
  \<^verbatim>\<open>int\<close> and is stored in a \<^verbatim>\<open>uint32_t\<close>: the stored value is the priority in bits 31..24.
\<close>

definition icp_accept :: "xics_state \<Rightarrow> int \<Rightarrow> (32 word \<times> xics_state) option" where
  "icp_accept st sv =
     (if \<not> ss_valid st sv then None
      else
        (let st1 = qemu_irq_lower st sv;
             x = xirr (get_ss st1 sv);
             st2 = upd_ss st1 sv (\<lambda>s. s\<lparr>xirr := push_bit 24 (ucast (pending_priority s))\<rparr>)
         in Some (x, st2)))"

text \<open>
  \<^verbatim>\<open>icp_check_ipi\<close>, with \<^verbatim>\<open>XICS_IPI\<close> as the parameter \<open>ipi\<close>.
\<close>

definition icp_check_ipi :: "32 word \<Rightarrow> xics_state \<Rightarrow> int \<Rightarrow> xics_state option" where
  "icp_check_ipi ipi st sv =
     (if \<not> ss_valid st sv then None
      else if XISR (get_ss st sv) \<noteq> 0 \<and> pending_priority (get_ss st sv) \<le> mfrr (get_ss st sv)
      then Some st
      else
        (case (if XISR (get_ss st sv) \<noteq> 0 then ics_reject st (uint (XISR (get_ss st sv)))
               else Some st) of
           None \<Rightarrow> None
         | Some st1 \<Rightarrow>
             Some (qemu_irq_raise
                    (upd_ss st1 sv (\<lambda>s. s\<lparr>xirr := (xirr s AND NOT XISR_MASK) OR ipi,
                                           pending_priority := mfrr s\<rparr>))
                    sv)))"

subsection \<open>ICS: resend\<close>

definition resend_msi :: "xics_state \<Rightarrow> int \<Rightarrow> xics_state option" where
  "resend_msi st srcno =
     (if \<not> irq_valid st srcno then None
      else if status (get_irq st srcno) AND XICS_STATUS_REJECTED \<noteq> 0
      then
        (let st1 = upd_irq st srcno (\<lambda>irq. irq\<lparr>status := status irq AND NOT XICS_STATUS_REJECTED\<rparr>)
         in if priority (get_irq st1 srcno) \<noteq> 0xff
            then icp_irq st1 (server (get_irq st1 srcno)) (srcno + offset st1)
                   (priority (get_irq st1 srcno))
            else Some st1)
      else Some st)"

definition resend_lsi :: "xics_state \<Rightarrow> int \<Rightarrow> xics_state option" where
  "resend_lsi st srcno =
     (if \<not> irq_valid st srcno then None
      else if priority (get_irq st srcno) \<noteq> 0xff
              \<and> status (get_irq st srcno) AND XICS_STATUS_ASSERTED \<noteq> 0
              \<and> status (get_irq st srcno) AND XICS_STATUS_SENT = 0
      then
        (let st1 = upd_irq st srcno (\<lambda>irq. irq\<lparr>status := status irq OR XICS_STATUS_SENT\<rparr>)
         in icp_irq st1 (server (get_irq st1 srcno)) (srcno + offset st1)
              (priority (get_irq st1 srcno)))
      else Some st)"

text \<open>
  The body of the loop of \<^verbatim>\<open>ics_resend\<close> for source \<open>i\<close>, and the loop itself from
  index \<open>i\<close> on: \<^verbatim>\<open>for (i = 0; i < ics->nr_irqs; i++)\<close>. The bound and the type of the source
  are read from the current state in every round, as in C.
\<close>

definition ics_resend_body :: "xics_state \<Rightarrow> nat \<Rightarrow> xics_state option" where
  "ics_resend_body st i =
     (if lsi (get_irq st (int i)) then resend_lsi st (int i) else resend_msi st (int i))"

function ics_resend_loop :: "xics_state \<Rightarrow> nat \<Rightarrow> xics_state option" where
  "ics_resend_loop st i =
     (if int i < nr_irqs st
      then (case ics_resend_body st i of
              None \<Rightarrow> None
            | Some st' \<Rightarrow> ics_resend_loop st' (Suc i))
      else Some st)"
  by pat_completeness auto
termination
proof (relation "measure (\<lambda>(st, i). length (irqs st) - i)")
  show "wf (measure (\<lambda>(st, i). length (irqs st) - i))"
    by simp
next
  fix st :: xics_state and i :: nat and st' :: xics_state
  assume lt: "int i < nr_irqs st" and body: "ics_resend_body st i = Some st'"
  have reject: "length (irqs t') = length (irqs t)" if "ics_reject t nr = Some t'" for t t' nr
    using that by (auto simp: ics_reject_def upd_irq_def Let_def split: if_splits)
  have irq: "length (irqs t') = length (irqs t)" if "icp_irq t sv nr prio = Some t'"
    for t t' sv nr prio
    using that
    by (auto simp: icp_irq_def qemu_irq_raise_def qemu_set_irq_def upd_ss_def Let_def
             dest: reject split: if_splits option.splits)
  have "length (irqs st') = length (irqs st)"
    using body
    by (auto simp: ics_resend_body_def resend_lsi_def resend_msi_def upd_irq_def Let_def
             dest!: irq split: if_splits)
  then show "((st', Suc i), (st, i)) \<in> measure (\<lambda>(st, i). length (irqs st) - i)"
    using lt by (simp add: nr_irqs_def)
qed

declare ics_resend_loop.simps [simp del]

definition ics_resend :: "xics_state \<Rightarrow> xics_state option" where
  "ics_resend st = ics_resend_loop st 0"

subsection \<open>ICP: the remaining operations\<close>

definition icp_resend :: "32 word \<Rightarrow> xics_state \<Rightarrow> int \<Rightarrow> xics_state option" where
  "icp_resend ipi st sv =
     (if \<not> ss_valid st sv then None
      else
        (case (if ucast (mfrr (get_ss st sv)) < CPPR (get_ss st sv)
               then icp_check_ipi ipi st sv else Some st) of
           None \<Rightarrow> None
         | Some st1 \<Rightarrow> ics_resend st1))"

text \<open>
  \<^verbatim>\<open>icp_set_cppr\<close>. \<^verbatim>\<open>old_cppr\<close> is a \<^verbatim>\<open>uint8_t\<close> that receives \<^verbatim>\<open>CPPR(ss)\<close>;
  \<^verbatim>\<open>cppr << 24\<close> is stored in the \<^verbatim>\<open>uint32_t\<close> register.
\<close>

definition icp_set_cppr :: "32 word \<Rightarrow> xics_state \<Rightarrow> int \<Rightarrow> 8 word \<Rightarrow> xics_state option" where
  "icp_set_cppr ipi st sv cppr =
     (if \<not> ss_valid st sv then None
      else
        (let old_cppr = (ucast (CPPR (get_ss st sv)) :: 8 word);
             st1 = upd_ss st sv (\<lambda>s. s\<lparr>xirr := (xirr s AND NOT CPPR_MASK) OR push_bit 24 (ucast cppr)\<rparr>)
         in if cppr < old_cppr
            then (if XISR (get_ss st1 sv) \<noteq> 0 \<and> cppr \<le> pending_priority (get_ss st1 sv)
                  then
                    (let old_xisr = XISR (get_ss st1 sv);
                         st2 = upd_ss st1 sv (\<lambda>s. s\<lparr>xirr := xirr s AND NOT XISR_MASK\<rparr>);
                         st3 = qemu_irq_lower st2 sv
                     in ics_reject st3 (uint old_xisr))
                  else Some st1)
            else (if XISR (get_ss st1 sv) = 0 then icp_resend ipi st1 sv else Some st1)))"

definition icp_set_mfrr :: "32 word \<Rightarrow> xics_state \<Rightarrow> int \<Rightarrow> 8 word \<Rightarrow> xics_state option" where
  "icp_set_mfrr ipi st sv m =
     (if \<not> ss_valid st sv then None
      else
        (let st1 = upd_ss st sv (\<lambda>s. s\<lparr>mfrr := m\<rparr>)
         in if ucast m < CPPR (get_ss st1 sv) then icp_check_ipi ipi st1 sv else Some st1))"

definition icp_eoi :: "32 word \<Rightarrow> xics_state \<Rightarrow> int \<Rightarrow> 32 word \<Rightarrow> xics_state option" where
  "icp_eoi ipi st sv x =
     (if \<not> ss_valid st sv then None
      else
        (let st1 = upd_ss st sv (\<lambda>s. s\<lparr>xirr := (xirr s AND NOT CPPR_MASK) OR (x AND CPPR_MASK)\<rparr>)
         in case ics_eoi st1 (uint (x AND XISR_MASK)) of
              None \<Rightarrow> None
            | Some st2 \<Rightarrow>
                if XISR (get_ss st2 sv) = 0 then icp_resend ipi st2 sv else Some st2))"

subsection \<open>ICS: the device lines and the routing table\<close>

definition ics_valid_irq :: "xics_state \<Rightarrow> 32 word \<Rightarrow> bool" where
  \<comment> \<open>\<^verbatim>\<open>nr\<close> is a \<^verbatim>\<open>uint32_t\<close>, so both \<^verbatim>\<open>int\<close> operands are converted to unsigned.\<close>
  "ics_valid_irq st nr \<longleftrightarrow>
     word_of_int (offset st) \<le> nr \<and> nr < word_of_int (offset st + nr_irqs st)"

definition set_irq_msi :: "xics_state \<Rightarrow> int \<Rightarrow> int \<Rightarrow> xics_state option" where
  "set_irq_msi st srcno val =
     (if val \<noteq> 0
      then (if \<not> irq_valid st srcno then None
            else if priority (get_irq st srcno) = 0xff
            then Some (upd_irq st srcno (\<lambda>irq. irq\<lparr>status := status irq OR XICS_STATUS_MASKED_PENDING\<rparr>))
            else icp_irq st (server (get_irq st srcno)) (srcno + offset st)
                   (priority (get_irq st srcno)))
      else Some st)"

definition set_irq_lsi :: "xics_state \<Rightarrow> int \<Rightarrow> int \<Rightarrow> xics_state option" where
  "set_irq_lsi st srcno val =
     (if \<not> irq_valid st srcno then None
      else
        (let st1 = (if val \<noteq> 0
                    then upd_irq st srcno (\<lambda>irq. irq\<lparr>status := status irq OR XICS_STATUS_ASSERTED\<rparr>)
                    else upd_irq st srcno (\<lambda>irq. irq\<lparr>status := status irq AND NOT XICS_STATUS_ASSERTED\<rparr>))
         in resend_lsi st1 srcno))"

definition ics_set_irq :: "xics_state \<Rightarrow> int \<Rightarrow> int \<Rightarrow> xics_state option" where
  "ics_set_irq st srcno val =
     (if \<not> irq_valid st srcno then None
      else if lsi (get_irq st srcno) then set_irq_lsi st srcno val
      else set_irq_msi st srcno val)"

definition write_xive_msi :: "xics_state \<Rightarrow> int \<Rightarrow> xics_state option" where
  "write_xive_msi st srcno =
     (if \<not> irq_valid st srcno then None
      else if status (get_irq st srcno) AND XICS_STATUS_MASKED_PENDING = 0
              \<or> priority (get_irq st srcno) = 0xff
      then Some st
      else
        (let st1 = upd_irq st srcno (\<lambda>irq. irq\<lparr>status := status irq AND NOT XICS_STATUS_MASKED_PENDING\<rparr>)
         in icp_irq st1 (server (get_irq st1 srcno)) (srcno + offset st1)
              (priority (get_irq st1 srcno))))"

definition write_xive_lsi :: "xics_state \<Rightarrow> int \<Rightarrow> xics_state option" where
  "write_xive_lsi st srcno = resend_lsi st srcno"

definition ics_write_xive :: "xics_state \<Rightarrow> int \<Rightarrow> int \<Rightarrow> 8 word \<Rightarrow> 8 word \<Rightarrow> xics_state option" where
  "ics_write_xive st nr sv prio saved =
     (let srcno = nr - offset st in
      if \<not> irq_valid st srcno then None
      else
        (let st1 = upd_irq st srcno (\<lambda>irq. irq\<lparr>server := sv, priority := prio, saved_priority := saved\<rparr>)
         in if lsi (get_irq st1 srcno) then write_xive_lsi st1 srcno else write_xive_msi st1 srcno))"

subsection \<open>Exported functions, hypercalls and RTAS calls\<close>

definition xics_set_irq_type :: "xics_state \<Rightarrow> int \<Rightarrow> bool \<Rightarrow> xics_state option" where
  \<comment> \<open>The \<^verbatim>\<open>assert\<close> converts \<^verbatim>\<open>int irq\<close> to the \<^verbatim>\<open>uint32_t\<close> parameter of \<^verbatim>\<open>ics_valid_irq\<close>.\<close>
  "xics_set_irq_type st irq l =
     (if \<not> ics_valid_irq st (word_of_int irq) then None
      else if \<not> irq_valid st (irq - offset st) then None
      else Some (upd_irq st (irq - offset st) (\<lambda>q. q\<lparr>lsi := l\<rparr>)))"

text \<open>
  The hypercall handlers. \<^verbatim>\<open>H_SUCCESS\<close> and \<^verbatim>\<open>H_PARAMETER\<close> come from \<^verbatim>\<open>hw/spapr.h\<close>; only
  their being different matters here. \<open>cpu_index\<close> is \<^verbatim>\<open>env->cpu_index\<close> of the calling
  processor; \<^verbatim>\<open>target_ulong\<close> arguments are truncated by the C conversions to the
  \<^verbatim>\<open>uint8_t\<close>, \<^verbatim>\<open>uint32_t\<close> and \<^verbatim>\<open>int\<close> parameters of the callees.
\<close>

datatype h_status = H_SUCCESS | H_PARAMETER

definition h_cppr :: "32 word \<Rightarrow> xics_state \<Rightarrow> int \<Rightarrow> 64 word \<Rightarrow> (h_status \<times> xics_state) option" where
  "h_cppr ipi st cpu_index a0 =
     (case icp_set_cppr ipi st cpu_index (ucast a0) of
        None \<Rightarrow> None
      | Some st' \<Rightarrow> Some (H_SUCCESS, st'))"

definition h_ipi :: "32 word \<Rightarrow> xics_state \<Rightarrow> 64 word \<Rightarrow> 64 word \<Rightarrow> (h_status \<times> xics_state) option" where
  "h_ipi ipi st a0 a1 =
     (if nr_servers st \<le> uint a0 then Some (H_PARAMETER, st)
      else
        (case icp_set_mfrr ipi st (sint (ucast a0 :: 32 word)) (ucast a1) of
           None \<Rightarrow> None
         | Some st' \<Rightarrow> Some (H_SUCCESS, st')))"

definition h_xirr :: "xics_state \<Rightarrow> int \<Rightarrow> (h_status \<times> 64 word \<times> xics_state) option" where
  "h_xirr st cpu_index =
     (case icp_accept st cpu_index of
        None \<Rightarrow> None
      | Some (x, st') \<Rightarrow> Some (H_SUCCESS, ucast x, st'))"

definition h_eoi :: "32 word \<Rightarrow> xics_state \<Rightarrow> int \<Rightarrow> 64 word \<Rightarrow> (h_status \<times> xics_state) option" where
  "h_eoi ipi st cpu_index a0 =
     (case icp_eoi ipi st cpu_index (ucast a0) of
        None \<Rightarrow> None
      | Some st' \<Rightarrow> Some (H_SUCCESS, st'))"

text \<open>
  The RTAS handlers. \<^verbatim>\<open>rtas_ld(args, n)\<close> reads the \<open>n\<close>-th 32-bit cell of the guest's argument
  buffer, here \<open>args n\<close>; \<^verbatim>\<open>rtas_st(rets, n, v)\<close> writes the \<open>n\<close>-th cell of the return buffer.
  A handler returns the new state and the list of the cells it wrote, in the order of the
  writes. The \<^verbatim>\<open>uint32_t\<close> values \<^verbatim>\<open>nr\<close> and \<^verbatim>\<open>server\<close> are passed to \<^verbatim>\<open>int\<close> parameters and
  \<^verbatim>\<open>priority\<close> to a \<^verbatim>\<open>uint8_t\<close> parameter.
\<close>

type_synonym rtas_result = "(xics_state \<times> (nat \<times> 32 word) list) option"

definition rtas_set_xive :: "xics_state \<Rightarrow> 32 word \<Rightarrow> (nat \<Rightarrow> 32 word) \<Rightarrow> 32 word \<Rightarrow> rtas_result" where
  "rtas_set_xive st nargs args nret =
     (if nargs \<noteq> 3 \<or> nret \<noteq> 1 then Some (st, [(0, - 3)])
      else
        (let nr = args 0; sv = args 1; prio = args 2
         in if \<not> ics_valid_irq st nr \<or> nr_servers st \<le> uint sv \<or> 0xff < prio
            then Some (st, [(0, - 3)])
            else (case ics_write_xive st (sint nr) (sint sv) (ucast prio) (ucast prio) of
                    None \<Rightarrow> None
                  | Some st' \<Rightarrow> Some (st', [(0, 0)]))))"

definition rtas_get_xive :: "xics_state \<Rightarrow> 32 word \<Rightarrow> (nat \<Rightarrow> 32 word) \<Rightarrow> 32 word \<Rightarrow> rtas_result" where
  "rtas_get_xive st nargs args nret =
     (if nargs \<noteq> 1 \<or> nret \<noteq> 3 then Some (st, [(0, - 3)])
      else
        (let nr = args 0
         in if \<not> ics_valid_irq st nr then Some (st, [(0, - 3)])
            else if \<not> irq_valid st (sint nr - offset st) then None
            else Some (st, [(0, 0),
                            (1, word_of_int (server (get_irq st (sint nr - offset st)))),
                            (2, ucast (priority (get_irq st (sint nr - offset st))))])))"

definition rtas_int_off :: "xics_state \<Rightarrow> 32 word \<Rightarrow> (nat \<Rightarrow> 32 word) \<Rightarrow> 32 word \<Rightarrow> rtas_result" where
  "rtas_int_off st nargs args nret =
     (if nargs \<noteq> 1 \<or> nret \<noteq> 1 then Some (st, [(0, - 3)])
      else
        (let nr = args 0
         in if \<not> ics_valid_irq st nr then Some (st, [(0, - 3)])
            else if \<not> irq_valid st (sint nr - offset st) then None
            else (case ics_write_xive st (sint nr) (server (get_irq st (sint nr - offset st))) 0xff
                         (priority (get_irq st (sint nr - offset st))) of
                    None \<Rightarrow> None
                  | Some st' \<Rightarrow> Some (st', [(0, 0)]))))"

definition rtas_int_on :: "xics_state \<Rightarrow> 32 word \<Rightarrow> (nat \<Rightarrow> 32 word) \<Rightarrow> 32 word \<Rightarrow> rtas_result" where
  "rtas_int_on st nargs args nret =
     (if nargs \<noteq> 1 \<or> nret \<noteq> 1 then Some (st, [(0, - 3)])
      else
        (let nr = args 0
         in if \<not> ics_valid_irq st nr then Some (st, [(0, - 3)])
            else if \<not> irq_valid st (sint nr - offset st) then None
            else (case ics_write_xive st (sint nr) (server (get_irq st (sint nr - offset st)))
                         (saved_priority (get_irq st (sint nr - offset st)))
                         (saved_priority (get_irq st (sint nr - offset st))) of
                    None \<Rightarrow> None
                  | Some st' \<Rightarrow> Some (st', [(0, 0)]))))"

text \<open>
  \<^verbatim>\<open>xics_reset\<close>: the first loop resets every presenter and drives its pin low, the second
  resets every source except its type.
\<close>

definition xics_reset :: "xics_state \<Rightarrow> xics_state" where
  "xics_reset st =
     (let st1 = fold (\<lambda>i s. qemu_set_irq
                              (upd_ss s (int i) (\<lambda>p. p\<lparr>xirr := 0, pending_priority := 0, mfrr := 0xff\<rparr>))
                              (int i) False)
                     [0 ..< length (ss st)] st
      in st1\<lparr>irqs := map (\<lambda>q. q\<lparr>server := 0, status := 0, priority := 0xff, saved_priority := 0xff\<rparr>)
                        (irqs st1)\<rparr>)"

text \<open>
  \<^verbatim>\<open>xics_system_init\<close>: both arrays come from \<^verbatim>\<open>g_malloc0\<close>, so every field is zero, and
  \<^verbatim>\<open>offset\<close> is 16. The number of presenters is one more than the largest \<^verbatim>\<open>cpu_index\<close> of
  the machine, which is the parameter \<open>n_servers\<close> here; every presenter is taken to be
  wired to the pin of a processor with a supported bus model (for any other processor the C
  function stops the emulator).
\<close>

definition xics_system_init :: "nat \<Rightarrow> nat \<Rightarrow> xics_state" where
  "xics_system_init n_irqs n_servers =
     \<lparr>ss = replicate n_servers \<lparr>xirr = 0, pending_priority = 0, mfrr = 0, output_pin = False\<rparr>,
      irqs = replicate n_irqs \<lparr>server = 0, priority = 0, saved_priority = 0, status = 0, lsi = False\<rparr>,
      offset = 16,
      pin_trace = []\<rparr>"

subsection \<open>Runs of the controller\<close>

text \<open>
  Every entry point through which the rest of the machine reaches the controller after
  \<^verbatim>\<open>xics_system_init\<close>: the device lines, the four hypercalls, the four RTAS calls, the reset
  handler and \<^verbatim>\<open>xics_set_irq_type\<close>.
\<close>

datatype xics_op =
    Set_irq int int
  | Hcall_cppr int "64 word"
  | Hcall_ipi "64 word" "64 word"
  | Hcall_xirr int
  | Hcall_eoi int "64 word"
  | Rtas_set_xive "32 word" "nat \<Rightarrow> 32 word" "32 word"
  | Rtas_get_xive "32 word" "nat \<Rightarrow> 32 word" "32 word"
  | Rtas_int_off "32 word" "nat \<Rightarrow> 32 word" "32 word"
  | Rtas_int_on "32 word" "nat \<Rightarrow> 32 word" "32 word"
  | Reset
  | Set_irq_type int bool

fun xics_step :: "32 word \<Rightarrow> xics_state \<Rightarrow> xics_op \<Rightarrow> xics_state option" where
  "xics_step ipi st (Set_irq srcno val) = ics_set_irq st srcno val"
| "xics_step ipi st (Hcall_cppr cpu a0) = map_option snd (h_cppr ipi st cpu a0)"
| "xics_step ipi st (Hcall_ipi a0 a1) = map_option snd (h_ipi ipi st a0 a1)"
| "xics_step ipi st (Hcall_xirr cpu) = map_option (\<lambda>r. snd (snd r)) (h_xirr st cpu)"
| "xics_step ipi st (Hcall_eoi cpu a0) = map_option snd (h_eoi ipi st cpu a0)"
| "xics_step ipi st (Rtas_set_xive nargs args nret) = map_option fst (rtas_set_xive st nargs args nret)"
| "xics_step ipi st (Rtas_get_xive nargs args nret) = map_option fst (rtas_get_xive st nargs args nret)"
| "xics_step ipi st (Rtas_int_off nargs args nret) = map_option fst (rtas_int_off st nargs args nret)"
| "xics_step ipi st (Rtas_int_on nargs args nret) = map_option fst (rtas_int_on st nargs args nret)"
| "xics_step ipi st Reset = Some (xics_reset st)"
| "xics_step ipi st (Set_irq_type irq l) = xics_set_irq_type st irq l"

fun xics_run :: "32 word \<Rightarrow> xics_state \<Rightarrow> xics_op list \<Rightarrow> xics_state option" where
  "xics_run ipi st [] = Some st"
| "xics_run ipi st (op # ops) =
     (case xics_step ipi st op of None \<Rightarrow> None | Some st' \<Rightarrow> xics_run ipi st' ops)"

section \<open>Relations and predicates used in the properties\<close>

text \<open>
  What a delivery keeps of a source: the routing fields and the type; and the SENT bit is
  set afterwards only if it was set before, or if the source is level-sensitive and not
  masked.
\<close>

definition irq_kept :: "ics_irq_state \<Rightarrow> ics_irq_state \<Rightarrow> bool" where
  "irq_kept q q' \<longleftrightarrow>
     server q' = server q \<and> priority q' = priority q \<and> saved_priority q' = saved_priority q
     \<and> lsi q' = lsi q
     \<and> (status q' AND XICS_STATUS_SENT \<noteq> 0 \<longrightarrow>
          status q AND XICS_STATUS_SENT \<noteq> 0 \<or> (lsi q \<and> priority q \<noteq> 0xff))"

definition sources_kept :: "xics_state \<Rightarrow> xics_state \<Rightarrow> bool" where
  "sources_kept st st' \<longleftrightarrow>
     offset st' = offset st \<and> length (ss st') = length (ss st)
     \<and> list_all2 irq_kept (irqs st) (irqs st')"

text \<open>
  The relation between a source before and after an operation other than
  \<^verbatim>\<open>xics_set_irq_type\<close>: the type is kept, and the SENT bit is set afterwards only if it was
  set before, or if the source is level-sensitive and not masked afterwards.
\<close>

definition irq_stepped :: "ics_irq_state \<Rightarrow> ics_irq_state \<Rightarrow> bool" where
  "irq_stepped q q' \<longleftrightarrow>
     lsi q' = lsi q
     \<and> (status q' AND XICS_STATUS_SENT \<noteq> 0 \<longrightarrow>
          status q AND XICS_STATUS_SENT \<noteq> 0 \<or> (lsi q \<and> priority q' \<noteq> 0xff))"

definition sources_stepped :: "xics_state \<Rightarrow> xics_state \<Rightarrow> bool" where
  "sources_stepped st st' \<longleftrightarrow>
     offset st' = offset st \<and> list_all2 irq_stepped (irqs st) (irqs st')"

text \<open>
  \<^verbatim>\<open>xics_set_irq_type\<close> writes the type of a source and nothing else. A call is harmless
  for the SENT bit when it makes the source level-sensitive, or when the SENT bit of the
  source is clear; a run is harmless when each of its calls is, in the state in which it
  is made.
\<close>

fun retype_safe :: "xics_state \<Rightarrow> xics_op \<Rightarrow> bool" where
  "retype_safe st (Set_irq_type irq l) =
     (l \<or> status (get_irq st (irq - offset st)) AND XICS_STATUS_SENT = 0)"
| "retype_safe st _ = True"

fun retype_safe_run :: "32 word \<Rightarrow> xics_state \<Rightarrow> xics_op list \<Rightarrow> bool" where
  "retype_safe_run ipi st [] = True"
| "retype_safe_run ipi st (op # ops) =
     (retype_safe st op \<and>
      (case xics_step ipi st op of None \<Rightarrow> True | Some st' \<Rightarrow> retype_safe_run ipi st' ops))"

definition msi_unsent :: "xics_state \<Rightarrow> bool" where
  "msi_unsent st \<longleftrightarrow> (\<forall>q \<in> set (irqs st). \<not> lsi q \<longrightarrow> status q AND XICS_STATUS_SENT = 0)"

text \<open>
  An entry of the pin trace is gated when it is a lowering of the pin, or a raise at a
  moment at which the pending priority is more favoured than CPPR.
\<close>

definition raise_gated :: "int \<times> icp_server_state \<Rightarrow> bool" where
  "raise_gated e \<longleftrightarrow>
     (output_pin (snd e) \<longrightarrow> ucast (pending_priority (snd e)) < CPPR (snd e))"

definition trace_gated :: "xics_state \<Rightarrow> bool" where
  "trace_gated st \<longleftrightarrow> (\<forall>e \<in> set (pin_trace st). raise_gated e)"

section \<open>Properties\<close>

subsection \<open>Frame facts for the array helpers\<close>

lemma upd_irq_frame [simp]:
  "ss (upd_irq st i f) = ss st"
  "offset (upd_irq st i f) = offset st"
  "pin_trace (upd_irq st i f) = pin_trace st"
  "length (irqs (upd_irq st i f)) = length (irqs st)"
  "get_ss (upd_irq st i f) sv = get_ss st sv"
  "ss_valid (upd_irq st i f) sv = ss_valid st sv"
  "irq_valid (upd_irq st i f) j = irq_valid st j"
  "nr_irqs (upd_irq st i f) = nr_irqs st"
  "nr_servers (upd_irq st i f) = nr_servers st"
  by (simp_all add: upd_irq_def get_ss_def ss_valid_def irq_valid_def nr_irqs_def nr_servers_def)

lemma upd_ss_frame [simp]:
  "irqs (upd_ss st sv f) = irqs st"
  "offset (upd_ss st sv f) = offset st"
  "pin_trace (upd_ss st sv f) = pin_trace st"
  "length (ss (upd_ss st sv f)) = length (ss st)"
  "get_irq (upd_ss st sv f) i = get_irq st i"
  "ss_valid (upd_ss st sv f) k = ss_valid st k"
  "irq_valid (upd_ss st sv f) i = irq_valid st i"
  "nr_irqs (upd_ss st sv f) = nr_irqs st"
  "nr_servers (upd_ss st sv f) = nr_servers st"
  by (simp_all add: upd_ss_def get_irq_def ss_valid_def irq_valid_def nr_irqs_def nr_servers_def)

lemma get_upd_ss_same [simp]:
  "ss_valid st sv \<Longrightarrow> get_ss (upd_ss st sv f) sv = f (get_ss st sv)"
  by (simp add: ss_valid_def nr_servers_def get_ss_def upd_ss_def nat_less_iff)

lemma get_upd_ss_other [simp]:
  "0 \<le> sv \<Longrightarrow> 0 \<le> k \<Longrightarrow> k \<noteq> sv \<Longrightarrow> get_ss (upd_ss st sv f) k = get_ss st k"
  by (simp add: get_ss_def upd_ss_def nat_eq_iff)

lemma get_upd_irq_same [simp]:
  "irq_valid st i \<Longrightarrow> get_irq (upd_irq st i f) i = f (get_irq st i)"
  by (simp add: irq_valid_def nr_irqs_def get_irq_def upd_irq_def nat_less_iff)

lemma get_upd_irq_other [simp]:
  "0 \<le> i \<Longrightarrow> 0 \<le> j \<Longrightarrow> j \<noteq> i \<Longrightarrow> get_irq (upd_irq st i f) j = get_irq st j"
  by (simp add: get_irq_def upd_irq_def nat_eq_iff)

lemma qemu_set_irq_frame [simp]:
  "irqs (qemu_set_irq st sv l) = irqs st"
  "offset (qemu_set_irq st sv l) = offset st"
  "length (ss (qemu_set_irq st sv l)) = length (ss st)"
  "get_irq (qemu_set_irq st sv l) i = get_irq st i"
  "ss_valid (qemu_set_irq st sv l) k = ss_valid st k"
  "irq_valid (qemu_set_irq st sv l) i = irq_valid st i"
  "nr_irqs (qemu_set_irq st sv l) = nr_irqs st"
  "nr_servers (qemu_set_irq st sv l) = nr_servers st"
  by (simp_all add: qemu_set_irq_def Let_def get_irq_def ss_valid_def irq_valid_def
        nr_irqs_def nr_servers_def)

lemma qemu_set_irq_ss:
  "ss (qemu_set_irq st sv l) = ss (upd_ss st sv (\<lambda>s. s\<lparr>output_pin := l\<rparr>))"
  by (simp add: qemu_set_irq_def Let_def)

lemma qemu_set_irq_get_ss [simp]:
  "get_ss (qemu_set_irq st sv l) k = get_ss (upd_ss st sv (\<lambda>s. s\<lparr>output_pin := l\<rparr>)) k"
  by (simp add: qemu_set_irq_def Let_def get_ss_def)

lemma qemu_set_irq_trace [simp]:
  "ss_valid st sv \<Longrightarrow>
   pin_trace (qemu_set_irq st sv l) = (sv, (get_ss st sv)\<lparr>output_pin := l\<rparr>) # pin_trace st"
  by (simp add: qemu_set_irq_def Let_def)

subsection \<open>The two fields of xirr\<close>

lemma XISR_MASK_mask: "XISR_MASK = mask 24"
  by (simp add: XISR_MASK_def mask_eq_exp_minus_1)

lemma CPPR_MASK_mask: "CPPR_MASK = NOT (mask 24)"
  by (simp add: CPPR_MASK_def mask_eq_exp_minus_1)

lemma xisr_of_shifted_priority: "push_bit 24 (ucast (p :: 8 word) :: 32 word) AND XISR_MASK = 0"
  unfolding XISR_MASK_mask
  by (rule bit_word_eqI) (auto simp: bit_simps)

lemma cppr_of_shifted_priority: "drop_bit 24 (push_bit 24 (ucast (p :: 8 word) :: 32 word)) = ucast p"
  by (rule bit_word_eqI) (auto simp: bit_simps dest: bit_imp_le_length)

lemma xisr_set_xisr: "((x AND NOT XISR_MASK) OR (w AND XISR_MASK)) AND XISR_MASK = w AND XISR_MASK"
  unfolding XISR_MASK_mask
  by (rule bit_word_eqI) (auto simp: bit_simps)

lemma cppr_set_xisr: "drop_bit 24 ((x AND NOT XISR_MASK) OR (w AND XISR_MASK)) = drop_bit 24 (x :: 32 word)"
  unfolding XISR_MASK_mask
  by (rule bit_word_eqI) (auto simp: bit_simps dest: bit_imp_le_length)

lemma xisr_small: "0 \<le> nr \<Longrightarrow> nr \<le> 0xffffff \<Longrightarrow> uint ((word_of_int nr :: 32 word) AND XISR_MASK) = nr"
  unfolding XISR_MASK_mask
  by (simp add: unsigned_take_bit_eq uint_word_of_int_eq take_bit_int_eq_self flip: take_bit_eq_mask)

text \<open>
  Claim C5. For every presenter, \<^verbatim>\<open>icp_accept\<close> returns the whole 32-bit \<open>xirr\<close> held before
  the call; afterwards XISR is zero, the stored \<open>xirr\<close> is the old pending priority shifted
  into the high byte (so CPPR is the old pending priority), and the output pin is lowered.
  This holds whatever value is returned, in particular when it is not zero.
\<close>

theorem icp_accept_spec:
  assumes "ss_valid st sv"
  shows "\<exists>st'. icp_accept st sv = Some (xirr (get_ss st sv), st')
           \<and> XISR (get_ss st' sv) = 0
           \<and> CPPR (get_ss st' sv) = ucast (pending_priority (get_ss st sv))
           \<and> xirr (get_ss st' sv) = push_bit 24 (ucast (pending_priority (get_ss st sv)))
           \<and> \<not> output_pin (get_ss st' sv)"
  using assms
  by (simp add: icp_accept_def Let_def qemu_irq_lower_def XISR_def CPPR_def
        xisr_of_shifted_priority cppr_of_shifted_priority)

theorem icp_accept_spec_witness:
  "ss_valid \<lparr>ss = [\<lparr>xirr = 0xff000011, pending_priority = 2, mfrr = 0xff, output_pin = True\<rparr>],
              irqs = [], offset = 16, pin_trace = []\<rparr> 0
   \<and> (\<exists>st'. icp_accept \<lparr>ss = [\<lparr>xirr = 0xff000011, pending_priority = 2, mfrr = 0xff, output_pin = True\<rparr>],
                           irqs = [], offset = 16, pin_trace = []\<rparr> 0 = Some (0xff000011, st')
           \<and> XISR (get_ss st' 0) = 0 \<and> CPPR (get_ss st' 0) = 2 \<and> xirr (get_ss st' 0) = 0x02000000
           \<and> \<not> output_pin (get_ss st' 0))"
proof -
  let ?W = "\<lparr>ss = [\<lparr>xirr = 0xff000011, pending_priority = 2, mfrr = 0xff, output_pin = True\<rparr>],
             irqs = [], offset = 16, pin_trace = []\<rparr>"
  have v: "ss_valid ?W 0"
    by (simp add: ss_valid_def nr_servers_def)
  from icp_accept_spec [OF v] show ?thesis
    using v by (simp add: get_ss_def)
qed

subsection \<open>Reject\<close>

lemma ics_reject_frame:
  assumes "ics_reject st nr = Some st'"
  shows "ss st' = ss st" and "pin_trace st' = pin_trace st" and "offset st' = offset st"
    and "length (irqs st') = length (irqs st)"
  using assms by (auto simp: ics_reject_def Let_def split: if_splits)

lemma ics_reject_get_ss:
  "ics_reject st nr = Some st' \<Longrightarrow> get_ss st' k = get_ss st k"
  by (simp add: get_ss_def ics_reject_frame)

text \<open>
  Claim C1. For every call \<^verbatim>\<open>icp_irq(server, nr, priority)\<close> on a presenter of the array: if
  \<open>priority \<ge> CPPR\<close>, or an XISR is pending with \<open>pending_priority \<le> priority\<close>, the call is
  exactly \<^verbatim>\<open>ics_reject(nr)\<close> and leaves the presenters and their pins as they are.
  Otherwise a pending XISR is first rejected with \<^verbatim>\<open>ics_reject(old_xisr)\<close>; then XISR is
  set to \<open>nr\<close> (to its low 24 bits, which is \<open>nr\<close> itself for every number that fits the
  field), \<open>pending_priority\<close> to \<open>priority\<close>, and the pin is raised; CPPR, MFRR and the
  other presenters are unchanged.
\<close>

theorem icp_irq_spec:
  assumes v: "ss_valid st sv"
  shows "if CPPR (get_ss st sv) \<le> ucast prio
            \<or> (XISR (get_ss st sv) \<noteq> 0 \<and> pending_priority (get_ss st sv) \<le> prio)
         then icp_irq st sv nr prio = ics_reject st nr
              \<and> (\<forall>st'. icp_irq st sv nr prio = Some st' \<longrightarrow>
                     ss st' = ss st \<and> pin_trace st' = pin_trace st)
         else (case (if XISR (get_ss st sv) \<noteq> 0 then ics_reject st (uint (XISR (get_ss st sv)))
                     else Some st) of
                 None \<Rightarrow> icp_irq st sv nr prio = None
               | Some st1 \<Rightarrow>
                   (\<exists>st'. icp_irq st sv nr prio = Some st'
                      \<and> irqs st' = irqs st1
                      \<and> XISR (get_ss st' sv) = word_of_int nr AND XISR_MASK
                      \<and> (0 \<le> nr \<and> nr \<le> 0xffffff \<longrightarrow> uint (XISR (get_ss st' sv)) = nr)
                      \<and> CPPR (get_ss st' sv) = CPPR (get_ss st sv)
                      \<and> mfrr (get_ss st' sv) = mfrr (get_ss st sv)
                      \<and> pending_priority (get_ss st' sv) = prio
                      \<and> output_pin (get_ss st' sv)
                      \<and> (\<forall>k. 0 \<le> k \<and> k \<noteq> sv \<longrightarrow> get_ss st' k = get_ss st k)
                      \<and> pin_trace st' = (sv, get_ss st' sv) # pin_trace st))"
proof (cases "CPPR (get_ss st sv) \<le> ucast prio
            \<or> (XISR (get_ss st sv) \<noteq> 0 \<and> pending_priority (get_ss st sv) \<le> prio)")
  case True
  then have "icp_irq st sv nr prio = ics_reject st nr"
    using v by (simp add: icp_irq_def)
  then show ?thesis
    using True by (simp add: ics_reject_frame)
next
  case False
  let ?old = "if XISR (get_ss st sv) \<noteq> 0 then ics_reject st (uint (XISR (get_ss st sv)))
              else Some st"
  have eq: "icp_irq st sv nr prio =
      (case ?old of None \<Rightarrow> None
       | Some st1 \<Rightarrow> Some (qemu_irq_raise
            (upd_ss st1 sv (\<lambda>s. s\<lparr>xirr := (xirr s AND NOT XISR_MASK) OR (word_of_int nr AND XISR_MASK),
                                   pending_priority := prio\<rparr>)) sv))"
    using v unfolding icp_irq_def if_not_P [OF False] by simp
  show ?thesis
  proof (cases ?old)
    case None
    then show ?thesis
      unfolding if_not_P [OF False] using eq by simp
  next
    case (Some st1)
    let ?st' = "qemu_irq_raise
            (upd_ss st1 sv (\<lambda>s. s\<lparr>xirr := (xirr s AND NOT XISR_MASK) OR (word_of_int nr AND XISR_MASK),
                                   pending_priority := prio\<rparr>)) sv"
    have fr: "ss st1 = ss st" "pin_trace st1 = pin_trace st"
      using Some by (auto simp: ics_reject_frame split: if_splits)
    then have g: "get_ss st1 = get_ss st" and v1: "ss_valid st1 sv"
      using v by (auto simp: get_ss_def ss_valid_def nr_servers_def)
    have sv0: "0 \<le> sv"
      using v by (simp add: ss_valid_def)
    have r: "icp_irq st sv nr prio = Some ?st'"
      using eq Some by simp
    have x: "xirr (get_ss ?st' sv) =
               (xirr (get_ss st sv) AND NOT XISR_MASK) OR (word_of_int nr AND XISR_MASK)"
      using v1 by (simp add: qemu_irq_raise_def g)
    have p1: "irqs ?st' = irqs st1"
      by (simp add: qemu_irq_raise_def)
    have p2: "XISR (get_ss ?st' sv) = word_of_int nr AND XISR_MASK"
      unfolding XISR_def x by (rule xisr_set_xisr)
    have p3: "0 \<le> nr \<and> nr \<le> 0xffffff \<longrightarrow> uint (XISR (get_ss ?st' sv)) = nr"
      unfolding p2 by (simp add: xisr_small)
    have p4: "CPPR (get_ss ?st' sv) = CPPR (get_ss st sv)"
      unfolding CPPR_def x by (rule cppr_set_xisr)
    have p5: "mfrr (get_ss ?st' sv) = mfrr (get_ss st sv)"
      "pending_priority (get_ss ?st' sv) = prio" "output_pin (get_ss ?st' sv)"
      using v1 by (simp_all add: qemu_irq_raise_def g)
    have p6: "\<forall>k. 0 \<le> k \<and> k \<noteq> sv \<longrightarrow> get_ss ?st' k = get_ss st k"
      using sv0 by (simp add: qemu_irq_raise_def g)
    have p7: "pin_trace ?st' = (sv, get_ss ?st' sv) # pin_trace st"
      using v1 by (simp add: qemu_irq_raise_def g fr)
    have "\<exists>st'. icp_irq st sv nr prio = Some st'
                      \<and> irqs st' = irqs st1
                      \<and> XISR (get_ss st' sv) = word_of_int nr AND XISR_MASK
                      \<and> (0 \<le> nr \<and> nr \<le> 0xffffff \<longrightarrow> uint (XISR (get_ss st' sv)) = nr)
                      \<and> CPPR (get_ss st' sv) = CPPR (get_ss st sv)
                      \<and> mfrr (get_ss st' sv) = mfrr (get_ss st sv)
                      \<and> pending_priority (get_ss st' sv) = prio
                      \<and> output_pin (get_ss st' sv)
                      \<and> (\<forall>k. 0 \<le> k \<and> k \<noteq> sv \<longrightarrow> get_ss st' k = get_ss st k)
                      \<and> pin_trace st' = (sv, get_ss st' sv) # pin_trace st"
      using r p1 p2 p3 p4 p5 p6 p7 by blast
    then show ?thesis
      unfolding if_not_P [OF False] Some by simp
  qed
qed

theorem icp_irq_spec_witness:
  "ss_valid \<lparr>ss = [\<lparr>xirr = 0xff000010, pending_priority = 5, mfrr = 0xff, output_pin = True\<rparr>],
              irqs = [\<lparr>server = 0, priority = 5, saved_priority = 5, status = 0, lsi = False\<rparr>,
                      \<lparr>server = 0, priority = 2, saved_priority = 2, status = 0, lsi = False\<rparr>],
              offset = 16, pin_trace = []\<rparr> 0
   \<and> icp_irq \<lparr>ss = [\<lparr>xirr = 0xff000010, pending_priority = 5, mfrr = 0xff, output_pin = True\<rparr>],
              irqs = [\<lparr>server = 0, priority = 5, saved_priority = 5, status = 0, lsi = False\<rparr>,
                      \<lparr>server = 0, priority = 2, saved_priority = 2, status = 0, lsi = False\<rparr>],
              offset = 16, pin_trace = []\<rparr> 0 17 7
       = ics_reject \<lparr>ss = [\<lparr>xirr = 0xff000010, pending_priority = 5, mfrr = 0xff, output_pin = True\<rparr>],
              irqs = [\<lparr>server = 0, priority = 5, saved_priority = 5, status = 0, lsi = False\<rparr>,
                      \<lparr>server = 0, priority = 2, saved_priority = 2, status = 0, lsi = False\<rparr>],
              offset = 16, pin_trace = []\<rparr> 17
   \<and> (\<exists>st'. icp_irq \<lparr>ss = [\<lparr>xirr = 0xff000010, pending_priority = 5, mfrr = 0xff, output_pin = True\<rparr>],
              irqs = [\<lparr>server = 0, priority = 5, saved_priority = 5, status = 0, lsi = False\<rparr>,
                      \<lparr>server = 0, priority = 2, saved_priority = 2, status = 0, lsi = False\<rparr>],
              offset = 16, pin_trace = []\<rparr> 0 17 2 = Some st'
          \<and> status (get_irq st' 0) = 4
          \<and> uint (XISR (get_ss st' 0)) = 17 \<and> pending_priority (get_ss st' 0) = 2
          \<and> output_pin (get_ss st' 0))"
proof -
  let ?W = "\<lparr>ss = [\<lparr>xirr = 0xff000010, pending_priority = 5, mfrr = 0xff, output_pin = True\<rparr>],
              irqs = [\<lparr>server = 0, priority = 5, saved_priority = 5, status = 0, lsi = False\<rparr>,
                      \<lparr>server = 0, priority = 2, saved_priority = 2, status = 0, lsi = False\<rparr>],
              offset = 16, pin_trace = []\<rparr>"
  have v: "ss_valid ?W 0"
    by (simp add: ss_valid_def nr_servers_def)
  have c: "CPPR (get_ss ?W 0) = 0xff" "XISR (get_ss ?W 0) = 16" "pending_priority (get_ss ?W 0) = 5"
    by (simp_all add: CPPR_def XISR_def XISR_MASK_def get_ss_def)
  have r: "ics_reject ?W 16 = Some (?W\<lparr>irqs := [\<lparr>server = 0, priority = 5, saved_priority = 5, status = 4, lsi = False\<rparr>,
                      \<lparr>server = 0, priority = 2, saved_priority = 2, status = 0, lsi = False\<rparr>]\<rparr>)"
    by (simp add: ics_reject_def irq_valid_def nr_irqs_def upd_irq_def
          XICS_STATUS_REJECTED_def XICS_STATUS_SENT_def)
  have i1: "icp_irq ?W 0 17 7 = ics_reject ?W 17"
    using icp_irq_spec [OF v, of 7 17] by (simp add: c)
  have i2: "\<exists>st'. icp_irq ?W 0 17 2 = Some st'
          \<and> status (get_irq st' 0) = 4
          \<and> uint (XISR (get_ss st' 0)) = 17 \<and> pending_priority (get_ss st' 0) = 2
          \<and> output_pin (get_ss st' 0)"
    using icp_irq_spec [OF v, of 2 17] by (auto simp add: c r get_irq_def)
  show ?thesis
    using v i1 i2 by blast
qed

subsection \<open>A reject cycle\<close>

text \<open>
  Claim C3. The scenario with 4 message-signalled sources and 2 presenters. After reset,
  \<open>set_cppr(0, 0xFF)\<close>, routing source 16 to presenter 0 at priority 5 and asserting it,
  presenter 0 has CPPR = 0xFF and XISR = 16 pending at priority 5. Delivering source 17 at
  priority 2 sets the REJECTED bit of source 16 and installs XISR = 17 with pending priority
  2, the pin staying raised. \<^verbatim>\<open>icp_accept\<close> returns an \<open>xirr\<close> that carries 17, and
  \<^verbatim>\<open>icp_eoi\<close> of that \<open>xirr\<close> runs the resend pass, which clears the REJECTED bit of source 16
  and delivers it again: XISR = 16 at priority 5, pin raised. This holds for every value
  of \<^verbatim>\<open>XICS_IPI\<close>.
\<close>

theorem reject_cycle_scenario:
  "\<exists>st1 st2 x st3 st4.
      xics_run ipi (xics_system_init 4 2)
        [Reset, Hcall_cppr 0 0xff, Rtas_set_xive 3 (\<lambda>n. [16, 0, 5] ! n) 1, Set_irq 0 1] = Some st1
    \<and> CPPR (get_ss st1 0) = 0xff \<and> XISR (get_ss st1 0) = 16
    \<and> pending_priority (get_ss st1 0) = 5 \<and> output_pin (get_ss st1 0)
    \<and> xics_run ipi st1 [Rtas_set_xive 3 (\<lambda>n. [17, 0, 2] ! n) 1, Set_irq 1 1] = Some st2
    \<and> status (get_irq st2 0) AND XICS_STATUS_REJECTED = XICS_STATUS_REJECTED
    \<and> XISR (get_ss st2 0) = 17 \<and> pending_priority (get_ss st2 0) = 2 \<and> output_pin (get_ss st2 0)
    \<and> icp_accept st2 0 = Some (x, st3)
    \<and> x AND XISR_MASK = 17
    \<and> icp_eoi ipi st3 0 x = Some st4
    \<and> status (get_irq st4 0) AND XICS_STATUS_REJECTED = 0
    \<and> XISR (get_ss st4 0) = 16 \<and> pending_priority (get_ss st4 0) = 5 \<and> output_pin (get_ss st4 0)"
proof -
  let ?s1 = "\<lparr>ss = [\<lparr>xirr = 0xff000010, pending_priority = 5, mfrr = 0xff, output_pin = True\<rparr>, \<lparr>xirr = 0, pending_priority = 0, mfrr = 0xff, output_pin = False\<rparr>],
             irqs = [\<lparr>server = 0, priority = 5, saved_priority = 5, status = 0, lsi = False\<rparr>,
                     \<lparr>server = 0, priority = 0xff, saved_priority = 0xff, status = 0, lsi = False\<rparr>,
                     \<lparr>server = 0, priority = 0xff, saved_priority = 0xff, status = 0, lsi = False\<rparr>,
                     \<lparr>server = 0, priority = 0xff, saved_priority = 0xff, status = 0, lsi = False\<rparr>],
             offset = 16,
             pin_trace = [(0, \<lparr>xirr = 0xff000010, pending_priority = 5, mfrr = 0xff, output_pin = True\<rparr>),
                          (1, \<lparr>xirr = 0, pending_priority = 0, mfrr = 0xff, output_pin = False\<rparr>),
                          (0, \<lparr>xirr = 0, pending_priority = 0, mfrr = 0xff, output_pin = False\<rparr>)]\<rparr>"
  let ?s2 = "\<lparr>ss = [\<lparr>xirr = 0xff000011, pending_priority = 2, mfrr = 0xff, output_pin = True\<rparr>, \<lparr>xirr = 0, pending_priority = 0, mfrr = 0xff, output_pin = False\<rparr>],
             irqs = [\<lparr>server = 0, priority = 5, saved_priority = 5, status = 4, lsi = False\<rparr>,
                     \<lparr>server = 0, priority = 2, saved_priority = 2, status = 0, lsi = False\<rparr>,
                     \<lparr>server = 0, priority = 0xff, saved_priority = 0xff, status = 0, lsi = False\<rparr>,
                     \<lparr>server = 0, priority = 0xff, saved_priority = 0xff, status = 0, lsi = False\<rparr>],
             offset = 16,
             pin_trace = [(0, \<lparr>xirr = 0xff000011, pending_priority = 2, mfrr = 0xff, output_pin = True\<rparr>),
                          (0, \<lparr>xirr = 0xff000010, pending_priority = 5, mfrr = 0xff, output_pin = True\<rparr>),
                          (1, \<lparr>xirr = 0, pending_priority = 0, mfrr = 0xff, output_pin = False\<rparr>),
                          (0, \<lparr>xirr = 0, pending_priority = 0, mfrr = 0xff, output_pin = False\<rparr>)]\<rparr>"
  let ?s3 = "\<lparr>ss = [\<lparr>xirr = 0x02000000, pending_priority = 2, mfrr = 0xff, output_pin = False\<rparr>, \<lparr>xirr = 0, pending_priority = 0, mfrr = 0xff, output_pin = False\<rparr>],
             irqs = [\<lparr>server = 0, priority = 5, saved_priority = 5, status = 4, lsi = False\<rparr>,
                     \<lparr>server = 0, priority = 2, saved_priority = 2, status = 0, lsi = False\<rparr>,
                     \<lparr>server = 0, priority = 0xff, saved_priority = 0xff, status = 0, lsi = False\<rparr>,
                     \<lparr>server = 0, priority = 0xff, saved_priority = 0xff, status = 0, lsi = False\<rparr>],
             offset = 16,
             pin_trace = [(0, \<lparr>xirr = 0xff000011, pending_priority = 2, mfrr = 0xff, output_pin = False\<rparr>),
                          (0, \<lparr>xirr = 0xff000011, pending_priority = 2, mfrr = 0xff, output_pin = True\<rparr>),
                          (0, \<lparr>xirr = 0xff000010, pending_priority = 5, mfrr = 0xff, output_pin = True\<rparr>),
                          (1, \<lparr>xirr = 0, pending_priority = 0, mfrr = 0xff, output_pin = False\<rparr>),
                          (0, \<lparr>xirr = 0, pending_priority = 0, mfrr = 0xff, output_pin = False\<rparr>)]\<rparr>"
  let ?s4 = "\<lparr>ss = [\<lparr>xirr = 0xff000010, pending_priority = 5, mfrr = 0xff, output_pin = True\<rparr>, \<lparr>xirr = 0, pending_priority = 0, mfrr = 0xff, output_pin = False\<rparr>],
             irqs = [\<lparr>server = 0, priority = 5, saved_priority = 5, status = 0, lsi = False\<rparr>,
                     \<lparr>server = 0, priority = 2, saved_priority = 2, status = 0, lsi = False\<rparr>,
                     \<lparr>server = 0, priority = 0xff, saved_priority = 0xff, status = 0, lsi = False\<rparr>,
                     \<lparr>server = 0, priority = 0xff, saved_priority = 0xff, status = 0, lsi = False\<rparr>],
             offset = 16,
             pin_trace = [(0, \<lparr>xirr = 0xff000010, pending_priority = 5, mfrr = 0xff, output_pin = True\<rparr>),
                          (0, \<lparr>xirr = 0xff000011, pending_priority = 2, mfrr = 0xff, output_pin = False\<rparr>),
                          (0, \<lparr>xirr = 0xff000011, pending_priority = 2, mfrr = 0xff, output_pin = True\<rparr>),
                          (0, \<lparr>xirr = 0xff000010, pending_priority = 5, mfrr = 0xff, output_pin = True\<rparr>),
                          (1, \<lparr>xirr = 0, pending_priority = 0, mfrr = 0xff, output_pin = False\<rparr>),
                          (0, \<lparr>xirr = 0, pending_priority = 0, mfrr = 0xff, output_pin = False\<rparr>)]\<rparr>"
  have r1: "xics_run ipi (xics_system_init 4 2)
        [Reset, Hcall_cppr 0 0xff, Rtas_set_xive 3 (\<lambda>n. [16, 0, 5] ! n) 1, Set_irq 0 1] = Some ?s1"
    by code_simp
  have p1: "CPPR (get_ss ?s1 0) = 0xff" "XISR (get_ss ?s1 0) = 16"
    "pending_priority (get_ss ?s1 0) = 5" "output_pin (get_ss ?s1 0)"
    by code_simp+
  have r2: "xics_run ipi ?s1 [Rtas_set_xive 3 (\<lambda>n. [17, 0, 2] ! n) 1, Set_irq 1 1] = Some ?s2"
    by code_simp
  have p2: "status (get_irq ?s2 0) AND XICS_STATUS_REJECTED = XICS_STATUS_REJECTED"
    "XISR (get_ss ?s2 0) = 17" "pending_priority (get_ss ?s2 0) = 2" "output_pin (get_ss ?s2 0)"
    by code_simp+
  have r3: "icp_accept ?s2 0 = Some (0xff000011, ?s3)"
    by code_simp
  have p3: "(0xff000011 :: 32 word) AND XISR_MASK = 17"
    by code_simp
  have r4: "icp_eoi ipi ?s3 0 0xff000011 = Some ?s4"
    by code_simp
  have p4: "status (get_irq ?s4 0) AND XICS_STATUS_REJECTED = 0"
    "XISR (get_ss ?s4 0) = 16" "pending_priority (get_ss ?s4 0) = 5" "output_pin (get_ss ?s4 0)"
    by code_simp+
  show ?thesis
    using r1 p1 r2 p2 r3 p3 r4 p4 by blast
qed

subsection \<open>Deliveries keep the routing of the sources\<close>

lemma sent_bit_simps [simp]:
  "(x AND NOT XICS_STATUS_SENT) AND XICS_STATUS_SENT = 0"
  "(x OR XICS_STATUS_SENT) AND XICS_STATUS_SENT = XICS_STATUS_SENT"
  "(x OR XICS_STATUS_REJECTED) AND XICS_STATUS_SENT = x AND XICS_STATUS_SENT"
  "(x AND NOT XICS_STATUS_REJECTED) AND XICS_STATUS_SENT = x AND XICS_STATUS_SENT"
  "(x OR XICS_STATUS_ASSERTED) AND XICS_STATUS_SENT = x AND XICS_STATUS_SENT"
  "(x AND NOT XICS_STATUS_ASSERTED) AND XICS_STATUS_SENT = x AND XICS_STATUS_SENT"
  "(x OR XICS_STATUS_MASKED_PENDING) AND XICS_STATUS_SENT = x AND XICS_STATUS_SENT"
  "(x AND NOT XICS_STATUS_MASKED_PENDING) AND XICS_STATUS_SENT = x AND XICS_STATUS_SENT"
  "XICS_STATUS_SENT \<noteq> 0"
  by (simp_all add: XICS_STATUS_SENT_def XICS_STATUS_REJECTED_def XICS_STATUS_ASSERTED_def
        XICS_STATUS_MASKED_PENDING_def and.assoc bit.conj_disj_distrib2)

lemma irq_kept_refl [simp]: "irq_kept q q"
  by (simp add: irq_kept_def)

lemma irq_kept_trans: "irq_kept a b \<Longrightarrow> irq_kept b c \<Longrightarrow> irq_kept a c"
  by (auto simp: irq_kept_def)

lemma sources_kept_refl [simp]: "sources_kept st st"
  by (simp add: sources_kept_def list_all2_refl)

lemma sources_kept_trans:
  "sources_kept a b \<Longrightarrow> sources_kept b c \<Longrightarrow> sources_kept a c"
  unfolding sources_kept_def
  by (auto elim: list_all2_trans [rotated] intro: irq_kept_trans)

lemma sources_kept_valid:
  assumes "sources_kept st st'"
  shows "irq_valid st' i = irq_valid st i" and "ss_valid st' k = ss_valid st k"
    and "nr_irqs st' = nr_irqs st" and "nr_servers st' = nr_servers st"
    and "offset st' = offset st"
  using assms
  by (auto simp: sources_kept_def irq_valid_def ss_valid_def nr_irqs_def nr_servers_def
           dest: list_all2_lengthD)

lemma sources_kept_get:
  "sources_kept st st' \<Longrightarrow> irq_valid st i \<Longrightarrow> irq_kept (get_irq st i) (get_irq st' i)"
  by (simp add: sources_kept_def irq_valid_def nr_irqs_def get_irq_def list_all2_nthD
        nat_less_iff)

lemma sources_kept_upd_irq:
  assumes "sources_kept st0 st" and "irq_kept (get_irq st i) (f (get_irq st i))"
  shows "sources_kept st0 (upd_irq st i f)"
proof -
  have "list_all2 irq_kept ((irqs st)[nat i := irqs st ! nat i])
          ((irqs st)[nat i := f (irqs st ! nat i)])"
    using assms(2) by (intro list_all2_update_cong) (simp_all add: list_all2_refl get_irq_def)
  then have "list_all2 irq_kept (irqs st) ((irqs st)[nat i := f (irqs st ! nat i)])"
    by simp
  then have "sources_kept st (upd_irq st i f)"
    by (simp add: sources_kept_def upd_irq_def)
  with assms(1) show ?thesis
    by (rule sources_kept_trans)
qed

lemma sources_kept_upd_ss:
  "sources_kept st0 st \<Longrightarrow> sources_kept st0 (upd_ss st sv f)"
  by (simp add: sources_kept_def)

lemma sources_kept_set_irq:
  "sources_kept st0 st \<Longrightarrow> sources_kept st0 (qemu_set_irq st sv l)"
  by (simp add: sources_kept_def)

lemma ics_reject_kept:
  "ics_reject st nr = Some st' \<Longrightarrow> sources_kept st0 st \<Longrightarrow> sources_kept st0 st'"
  by (auto simp: ics_reject_def Let_def irq_kept_def split: if_splits
           intro!: sources_kept_upd_irq)

lemma ics_eoi_kept:
  "ics_eoi st nr = Some st' \<Longrightarrow> sources_kept st0 st \<Longrightarrow> sources_kept st0 st'"
  by (auto simp: ics_eoi_def Let_def irq_kept_def split: if_splits
           intro!: sources_kept_upd_irq)

lemma icp_irq_kept:
  "icp_irq st sv nr prio = Some st' \<Longrightarrow> sources_kept st0 st \<Longrightarrow> sources_kept st0 st'"
  by (auto simp: icp_irq_def qemu_irq_raise_def split: if_splits option.splits
           intro!: sources_kept_set_irq sources_kept_upd_ss elim: ics_reject_kept)

lemma icp_check_ipi_kept:
  "icp_check_ipi ipi st sv = Some st' \<Longrightarrow> sources_kept st0 st \<Longrightarrow> sources_kept st0 st'"
  by (auto simp: icp_check_ipi_def qemu_irq_raise_def split: if_splits option.splits
           intro!: sources_kept_set_irq sources_kept_upd_ss elim: ics_reject_kept)

lemma resend_msi_kept:
  "resend_msi st i = Some st' \<Longrightarrow> sources_kept st0 st \<Longrightarrow> sources_kept st0 st'"
  by (auto simp: resend_msi_def Let_def irq_kept_def split: if_splits
           elim!: icp_irq_kept intro!: sources_kept_upd_irq)

lemma resend_lsi_kept:
  "resend_lsi st i = Some st' \<Longrightarrow> lsi (get_irq st i) \<Longrightarrow> sources_kept st0 st
   \<Longrightarrow> sources_kept st0 st'"
  by (auto simp: resend_lsi_def Let_def irq_kept_def split: if_splits
           elim!: icp_irq_kept intro!: sources_kept_upd_irq)

lemma ics_resend_body_kept:
  "ics_resend_body st i = Some st' \<Longrightarrow> sources_kept st0 st \<Longrightarrow> sources_kept st0 st'"
  by (auto simp: ics_resend_body_def split: if_splits elim: resend_lsi_kept resend_msi_kept)

lemma ics_resend_loop_kept:
  "ics_resend_loop st i = Some st' \<Longrightarrow> sources_kept st0 st \<Longrightarrow> sources_kept st0 st'"
proof (induction st i rule: ics_resend_loop.induct)
  case (1 st i)
  show ?case
  proof (cases "int i < nr_irqs st")
    case True
    with "1.prems"(1) obtain st1 where b: "ics_resend_body st i = Some st1"
      and l: "ics_resend_loop st1 (Suc i) = Some st'"
      by (subst (asm) ics_resend_loop.simps) (auto split: option.splits)
    from b "1.prems"(2) have "sources_kept st0 st1"
      by (rule ics_resend_body_kept)
    with "1.IH" [OF True b l] show ?thesis .
  next
    case False
    with "1.prems" show ?thesis
      by (subst (asm) ics_resend_loop.simps) simp
  qed
qed

lemma ics_resend_kept:
  "ics_resend st = Some st' \<Longrightarrow> sources_kept st0 st \<Longrightarrow> sources_kept st0 st'"
  unfolding ics_resend_def by (rule ics_resend_loop_kept)

lemma icp_resend_kept:
  "icp_resend ipi st sv = Some st' \<Longrightarrow> sources_kept st0 st \<Longrightarrow> sources_kept st0 st'"
  by (auto simp: icp_resend_def split: if_splits option.splits
           elim: ics_resend_kept dest: icp_check_ipi_kept)

lemma icp_set_cppr_kept:
  "icp_set_cppr ipi st sv cppr = Some st' \<Longrightarrow> sources_kept st0 st \<Longrightarrow> sources_kept st0 st'"
  by (auto simp: icp_set_cppr_def Let_def qemu_irq_lower_def split: if_splits
           elim!: icp_resend_kept ics_reject_kept
           intro!: sources_kept_upd_ss sources_kept_set_irq)

lemma icp_set_mfrr_kept:
  "icp_set_mfrr ipi st sv m = Some st' \<Longrightarrow> sources_kept st0 st \<Longrightarrow> sources_kept st0 st'"
  by (auto simp: icp_set_mfrr_def Let_def split: if_splits
           elim!: icp_check_ipi_kept intro!: sources_kept_upd_ss)

lemma icp_accept_kept:
  "icp_accept st sv = Some (x, st') \<Longrightarrow> sources_kept st0 st \<Longrightarrow> sources_kept st0 st'"
  by (auto simp: icp_accept_def Let_def qemu_irq_lower_def split: if_splits
           intro!: sources_kept_upd_ss sources_kept_set_irq)

lemma icp_eoi_kept:
  "icp_eoi ipi st sv x = Some st' \<Longrightarrow> sources_kept st0 st \<Longrightarrow> sources_kept st0 st'"
  by (auto simp: icp_eoi_def Let_def split: if_splits option.splits
           elim!: icp_resend_kept dest!: ics_eoi_kept [where ?st0.0 = st0]
           intro!: sources_kept_upd_ss)

lemma set_irq_msi_kept:
  "set_irq_msi st i val = Some st' \<Longrightarrow> sources_kept st0 st \<Longrightarrow> sources_kept st0 st'"
  by (auto simp: set_irq_msi_def irq_kept_def split: if_splits
           elim!: icp_irq_kept intro!: sources_kept_upd_irq)

lemma set_irq_lsi_kept:
  "set_irq_lsi st i val = Some st' \<Longrightarrow> lsi (get_irq st i) \<Longrightarrow> sources_kept st0 st
   \<Longrightarrow> sources_kept st0 st'"
  by (auto simp: set_irq_lsi_def Let_def irq_kept_def split: if_splits
           elim!: resend_lsi_kept intro!: sources_kept_upd_irq)

lemma ics_set_irq_kept:
  "ics_set_irq st i val = Some st' \<Longrightarrow> sources_kept st0 st \<Longrightarrow> sources_kept st0 st'"
  by (auto simp: ics_set_irq_def split: if_splits elim: set_irq_lsi_kept set_irq_msi_kept)

lemma write_xive_msi_kept:
  "write_xive_msi st i = Some st' \<Longrightarrow> sources_kept st0 st \<Longrightarrow> sources_kept st0 st'"
  by (auto simp: write_xive_msi_def Let_def irq_kept_def split: if_splits
           elim!: icp_irq_kept intro!: sources_kept_upd_irq)

lemma write_xive_lsi_kept:
  "write_xive_lsi st i = Some st' \<Longrightarrow> lsi (get_irq st i) \<Longrightarrow> sources_kept st0 st
   \<Longrightarrow> sources_kept st0 st'"
  unfolding write_xive_lsi_def by (rule resend_lsi_kept)

text \<open>
  \<^verbatim>\<open>ics_write_xive\<close> first writes the three routing fields of the source and then delivers;
  the delivery keeps the routing of every source.
\<close>

lemma ics_write_xive_kept:
  "ics_write_xive st nr sv prio saved = Some st' \<Longrightarrow>
   sources_kept
     (upd_irq st (nr - offset st)
        (\<lambda>irq. irq\<lparr>server := sv, priority := prio, saved_priority := saved\<rparr>)) st'"
  by (auto simp: ics_write_xive_def Let_def split: if_splits
           elim: write_xive_lsi_kept write_xive_msi_kept)

subsection \<open>The RTAS calls\<close>

lemma ics_valid_irq_kept:
  "sources_kept st st' \<Longrightarrow> ics_valid_irq st' nr = ics_valid_irq st nr"
  by (simp add: ics_valid_irq_def sources_kept_valid)

lemma ics_write_xive_result:
  assumes "ics_write_xive st nr sv prio saved = Some st'"
  shows "irq_valid st (nr - offset st)"
    and "server (get_irq st' (nr - offset st)) = sv"
    and "priority (get_irq st' (nr - offset st)) = prio"
    and "saved_priority (get_irq st' (nr - offset st)) = saved"
    and "offset st' = offset st"
    and "ics_valid_irq st' n = ics_valid_irq st n"
proof -
  let ?i = "nr - offset st"
  let ?st1 = "upd_irq st ?i (\<lambda>irq. irq\<lparr>server := sv, priority := prio, saved_priority := saved\<rparr>)"
  show v: "irq_valid st ?i"
    using assms by (auto simp: ics_write_xive_def Let_def split: if_splits)
  have k: "sources_kept ?st1 st'"
    using assms by (rule ics_write_xive_kept)
  have "irq_kept (get_irq ?st1 ?i) (get_irq st' ?i)"
    using k v by (intro sources_kept_get) simp_all
  then show "server (get_irq st' ?i) = sv" "priority (get_irq st' ?i) = prio"
    "saved_priority (get_irq st' ?i) = saved"
    using v by (simp_all add: irq_kept_def)
  show "offset st' = offset st"
    using sources_kept_valid(5) [OF k] by simp
  show "ics_valid_irq st' n = ics_valid_irq st n"
    using ics_valid_irq_kept [OF k] by (simp add: ics_valid_irq_def)
qed

text \<open>
  Claim C8. For every valid interrupt number, \<^verbatim>\<open>ibm,int-off\<close> followed by \<^verbatim>\<open>ibm,int-on\<close>
  (both with one argument and one return cell) report success and restore the \<open>server\<close>
  and the \<open>priority\<close> of the source to their values before the int-off: int-off writes
  priority 0xFF and saves the old priority in \<open>saved_priority\<close>, int-on writes the saved
  priority back. The deliveries that the two calls may trigger change no routing field.
\<close>

theorem int_off_on_roundtrip:
  assumes valid: "ics_valid_irq st (args 0)"
    and off: "rtas_int_off st 1 args 1 = Some (st1, r1)"
    and on: "rtas_int_on st1 1 args 1 = Some (st2, r2)"
  shows "r1 = [(0, 0)] \<and> r2 = [(0, 0)]
     \<and> priority (get_irq st1 (sint (args 0) - offset st)) = 0xff
     \<and> saved_priority (get_irq st1 (sint (args 0) - offset st))
         = priority (get_irq st (sint (args 0) - offset st))
     \<and> server (get_irq st2 (sint (args 0) - offset st)) = server (get_irq st (sint (args 0) - offset st))
     \<and> priority (get_irq st2 (sint (args 0) - offset st))
         = priority (get_irq st (sint (args 0) - offset st))"
proof -
  let ?i = "sint (args 0) - offset st"
  from off valid have r1: "r1 = [(0, 0)]"
    and w1: "ics_write_xive st (sint (args 0)) (server (get_irq st ?i)) 0xff
               (priority (get_irq st ?i)) = Some st1"
    by (auto simp: rtas_int_off_def Let_def split: if_splits option.splits)
  note a = ics_write_xive_result [OF w1]
  have valid1: "ics_valid_irq st1 (args 0)"
    using valid a(6) by simp
  from on valid1 a(5) have r2: "r2 = [(0, 0)]"
    and w2: "ics_write_xive st1 (sint (args 0)) (server (get_irq st1 ?i))
               (saved_priority (get_irq st1 ?i)) (saved_priority (get_irq st1 ?i)) = Some st2"
    by (auto simp: rtas_int_on_def Let_def split: if_splits option.splits)
  note b = ics_write_xive_result [OF w2]
  show ?thesis
    using r1 r2 a(2-4) b(2-4) a(5) by simp
qed

theorem int_off_on_roundtrip_witness:
  "\<exists>st1 st2.
     ics_valid_irq \<lparr>ss = [\<lparr>xirr = 0xff000000, pending_priority = 0, mfrr = 0xff, output_pin = False\<rparr>],
                     irqs = [\<lparr>server = 0, priority = 5, saved_priority = 7, status = 1, lsi = True\<rparr>],
                     offset = 16, pin_trace = []\<rparr> 16
   \<and> rtas_int_off \<lparr>ss = [\<lparr>xirr = 0xff000000, pending_priority = 0, mfrr = 0xff, output_pin = False\<rparr>],
                     irqs = [\<lparr>server = 0, priority = 5, saved_priority = 7, status = 1, lsi = True\<rparr>],
                     offset = 16, pin_trace = []\<rparr> 1 (\<lambda>n. 16) 1 = Some (st1, [(0, 0)])
   \<and> rtas_int_on st1 1 (\<lambda>n. 16) 1 = Some (st2, [(0, 0)])
   \<and> priority (get_irq st1 0) = 0xff \<and> saved_priority (get_irq st1 0) = 5
   \<and> server (get_irq st2 0) = 0 \<and> priority (get_irq st2 0) = 5"
proof -
  let ?S = "\<lparr>ss = [\<lparr>xirr = 0xff000000, pending_priority = 0, mfrr = 0xff, output_pin = False\<rparr>],
             irqs = [\<lparr>server = 0, priority = 5, saved_priority = 7, status = 1, lsi = True\<rparr>],
             offset = 16, pin_trace = []\<rparr>"
  let ?S1 = "\<lparr>ss = [\<lparr>xirr = 0xff000000, pending_priority = 0, mfrr = 0xff, output_pin = False\<rparr>],
             irqs = [\<lparr>server = 0, priority = 0xff, saved_priority = 5, status = 1, lsi = True\<rparr>],
             offset = 16, pin_trace = []\<rparr>"
  let ?S2 = "\<lparr>ss = [\<lparr>xirr = 0xff000010, pending_priority = 5, mfrr = 0xff, output_pin = True\<rparr>],
             irqs = [\<lparr>server = 0, priority = 5, saved_priority = 5, status = 3, lsi = True\<rparr>],
             offset = 16,
             pin_trace = [(0, \<lparr>xirr = 0xff000010, pending_priority = 5, mfrr = 0xff, output_pin = True\<rparr>)]\<rparr>"
  have v: "ics_valid_irq ?S ((\<lambda>n. 16) (0::nat))"
    by code_simp
  have off: "rtas_int_off ?S 1 (\<lambda>n. 16) 1 = Some (?S1, [(0, 0)])"
    by code_simp
  have on: "rtas_int_on ?S1 1 (\<lambda>n. 16) 1 = Some (?S2, [(0, 0)])"
    by code_simp
  have i: "sint ((\<lambda>n. 16 :: 32 word) (0::nat)) - offset ?S = 0"
    by simp
  have q: "server (get_irq ?S 0) = 0" "priority (get_irq ?S 0) = 5"
    by (simp_all add: get_irq_def)
  from int_off_on_roundtrip [OF v off on] have
    "priority (get_irq ?S1 0) = 0xff \<and> saved_priority (get_irq ?S1 0) = 5
     \<and> server (get_irq ?S2 0) = 0 \<and> priority (get_irq ?S2 0) = 5"
    unfolding i q by simp
  with v off on show ?thesis
    by blast
qed

lemma sint_eq_uint_small: "uint (w :: 32 word) < 2 ^ 31 \<Longrightarrow> sint w = uint w"
proof -
  assume a: "uint w < 2 ^ 31"
  have b: "- (2 ^ 31) \<le> uint w"
    by (rule order_trans [OF _ uint_ge_0]) simp
  show ?thesis
    unfolding sint_uint using a b by (simp add: signed_take_bit_int_eq_self)
qed

lemma ics_valid_irq_range:
  assumes "0 \<le> offset st" and "offset st + nr_irqs st \<le> 2 ^ 31"
  shows "ics_valid_irq st nr \<longleftrightarrow> offset st \<le> uint nr \<and> uint nr < offset st + nr_irqs st"
proof -
  have n: "0 \<le> nr_irqs st"
    by (simp add: nr_irqs_def)
  have a: "uint (word_of_int (offset st) :: 32 word) = offset st"
    using assms n by (simp only: uint_word_of_int_eq) (simp add: take_bit_int_eq_self)
  have b: "uint (word_of_int (offset st + nr_irqs st) :: 32 word) = offset st + nr_irqs st"
    using assms n by (simp only: uint_word_of_int_eq) (simp add: take_bit_int_eq_self)
  show ?thesis
    unfolding ics_valid_irq_def word_le_def word_less_def a b ..
qed

text \<open>
  Claim C9. \<^verbatim>\<open>ibm,set-xive\<close>: when \<open>nargs \<noteq> 3\<close> or \<open>nret \<noteq> 1\<close>, or \<open>nr\<close> is outside
  \<open>[offset, offset + nr_irqs)\<close>, or \<open>server \<ge> nr_servers\<close>, or \<open>priority > 0xFF\<close>, the call
  writes status \<open>-3\<close> to \<open>rets[0]\<close> and returns the state unchanged; otherwise it performs
  \<^verbatim>\<open>ics_write_xive(nr, server, priority, priority)\<close> and writes status 0. The numbers of
  the machine are in the range of a C \<^verbatim>\<open>int\<close>: \<open>offset\<close> is not negative (it is 16 after
  \<^verbatim>\<open>xics_system_init\<close>), and \<open>offset + nr_irqs\<close> and \<open>nr_servers\<close> are at most \<open>2^31\<close>.
\<close>

theorem rtas_set_xive_spec:
  assumes "0 \<le> offset st" and "offset st + nr_irqs st \<le> 2 ^ 31" and "nr_servers st \<le> 2 ^ 31"
  shows "rtas_set_xive st nargs args nret =
     (if nargs \<noteq> 3 \<or> nret \<noteq> 1
         \<or> uint (args 0) < offset st \<or> offset st + nr_irqs st \<le> uint (args 0)
         \<or> nr_servers st \<le> uint (args 1)
         \<or> 0xff < uint (args 2)
      then Some (st, [(0, - 3)])
      else (case ics_write_xive st (uint (args 0)) (uint (args 1))
                   (ucast (args 2)) (ucast (args 2)) of
              None \<Rightarrow> None
            | Some st' \<Rightarrow> Some (st', [(0, 0)])))
     \<and> (uint (args 2) \<le> 0xff \<longrightarrow> uint (ucast (args 2) :: 8 word) = uint (args 2))"
proof -
  have p: "(0xff < args 2) \<longleftrightarrow> 0xff < uint (args 2)"
    by (simp add: word_less_def)
  have u: "uint (args 2) \<le> 0xff \<longrightarrow> uint (ucast (args 2) :: 8 word) = uint (args 2)"
    by (simp add: unsigned_ucast_eq take_bit_int_eq_self)
  have e: "rtas_set_xive st nargs args nret =
     (if nargs \<noteq> 3 \<or> nret \<noteq> 1
         \<or> uint (args 0) < offset st \<or> offset st + nr_irqs st \<le> uint (args 0)
         \<or> nr_servers st \<le> uint (args 1)
         \<or> 0xff < uint (args 2)
      then Some (st, [(0, - 3)])
      else (case ics_write_xive st (uint (args 0)) (uint (args 1))
                   (ucast (args 2)) (ucast (args 2)) of
              None \<Rightarrow> None
            | Some st' \<Rightarrow> Some (st', [(0, 0)])))"
    using assms
    by (auto simp: rtas_set_xive_def Let_def ics_valid_irq_range p sint_eq_uint_small
             split: option.splits)
  from e u show ?thesis ..
qed

theorem rtas_set_xive_spec_witness:
  "0 \<le> offset \<lparr>ss = [\<lparr>xirr = 0xff000000, pending_priority = 0, mfrr = 0xff, output_pin = False\<rparr>],
               irqs = [\<lparr>server = 0, priority = 0xff, saved_priority = 0xff, status = 8, lsi = False\<rparr>],
               offset = 16, pin_trace = []\<rparr>
   \<and> offset \<lparr>ss = [\<lparr>xirr = 0xff000000, pending_priority = 0, mfrr = 0xff, output_pin = False\<rparr>],
               irqs = [\<lparr>server = 0, priority = 0xff, saved_priority = 0xff, status = 8, lsi = False\<rparr>],
               offset = 16, pin_trace = []\<rparr>
       + nr_irqs \<lparr>ss = [\<lparr>xirr = 0xff000000, pending_priority = 0, mfrr = 0xff, output_pin = False\<rparr>],
               irqs = [\<lparr>server = 0, priority = 0xff, saved_priority = 0xff, status = 8, lsi = False\<rparr>],
               offset = 16, pin_trace = []\<rparr> \<le> 2 ^ 31
   \<and> nr_servers \<lparr>ss = [\<lparr>xirr = 0xff000000, pending_priority = 0, mfrr = 0xff, output_pin = False\<rparr>],
               irqs = [\<lparr>server = 0, priority = 0xff, saved_priority = 0xff, status = 8, lsi = False\<rparr>],
               offset = 16, pin_trace = []\<rparr> \<le> 2 ^ 31
   \<and> rtas_set_xive \<lparr>ss = [\<lparr>xirr = 0xff000000, pending_priority = 0, mfrr = 0xff, output_pin = False\<rparr>],
               irqs = [\<lparr>server = 0, priority = 0xff, saved_priority = 0xff, status = 8, lsi = False\<rparr>],
               offset = 16, pin_trace = []\<rparr> 3 (\<lambda>n. [17, 0, 5] ! n) 1
       = Some (\<lparr>ss = [\<lparr>xirr = 0xff000000, pending_priority = 0, mfrr = 0xff, output_pin = False\<rparr>],
               irqs = [\<lparr>server = 0, priority = 0xff, saved_priority = 0xff, status = 8, lsi = False\<rparr>],
               offset = 16, pin_trace = []\<rparr>, [(0, - 3)])
   \<and> rtas_set_xive \<lparr>ss = [\<lparr>xirr = 0xff000000, pending_priority = 0, mfrr = 0xff, output_pin = False\<rparr>],
               irqs = [\<lparr>server = 0, priority = 0xff, saved_priority = 0xff, status = 8, lsi = False\<rparr>],
               offset = 16, pin_trace = []\<rparr> 3 (\<lambda>n. [16, 0, 5] ! n) 1
       = Some (\<lparr>ss = [\<lparr>xirr = 0xff000010, pending_priority = 5, mfrr = 0xff, output_pin = True\<rparr>],
               irqs = [\<lparr>server = 0, priority = 5, saved_priority = 5, status = 0, lsi = False\<rparr>],
               offset = 16,
               pin_trace = [(0, \<lparr>xirr = 0xff000010, pending_priority = 5, mfrr = 0xff, output_pin = True\<rparr>)]\<rparr>,
               [(0, 0)])"
proof -
  let ?S = "\<lparr>ss = [\<lparr>xirr = 0xff000000, pending_priority = 0, mfrr = 0xff, output_pin = False\<rparr>],
               irqs = [\<lparr>server = 0, priority = 0xff, saved_priority = 0xff, status = 8, lsi = False\<rparr>],
               offset = 16, pin_trace = []\<rparr>"
  let ?S' = "\<lparr>ss = [\<lparr>xirr = 0xff000010, pending_priority = 5, mfrr = 0xff, output_pin = True\<rparr>],
               irqs = [\<lparr>server = 0, priority = 5, saved_priority = 5, status = 0, lsi = False\<rparr>],
               offset = 16,
               pin_trace = [(0, \<lparr>xirr = 0xff000010, pending_priority = 5, mfrr = 0xff, output_pin = True\<rparr>)]\<rparr>"
  have h: "0 \<le> offset ?S" "offset ?S + nr_irqs ?S \<le> 2 ^ 31" "nr_servers ?S \<le> 2 ^ 31"
    by (simp_all add: nr_irqs_def nr_servers_def)
  have n: "offset ?S = 16" "nr_irqs ?S = 1" "nr_servers ?S = 1"
    by (simp_all add: nr_irqs_def nr_servers_def)
  have w: "ics_write_xive ?S 16 0 5 5 = Some ?S'"
    by code_simp
  have e: "rtas_set_xive ?S 3 (\<lambda>n. [17, 0, 5] ! n) 1 = Some (?S, [(0, - 3)])"
    using rtas_set_xive_spec [OF h, of 3 "\<lambda>n. [17, 0, 5] ! n" 1] unfolding n by simp
  have g: "rtas_set_xive ?S 3 (\<lambda>n. [16, 0, 5] ! n) 1 = Some (?S', [(0, 0)])"
    using rtas_set_xive_spec [OF h, of 3 "\<lambda>n. [16, 0, 5] ! n" 1] unfolding n by (simp add: w)
  from h e g show ?thesis
    by blast
qed

subsection \<open>Resending a message-signalled source\<close>

text \<open>
  Claim C4, as the code has it. \<^verbatim>\<open>resend_msi(i)\<close> does nothing when the REJECTED bit of
  source \<open>i\<close> is clear. When the bit is set it is cleared, whether the source is masked or
  not; then, if the source is not masked (priority \<open>\<noteq> 0xFF\<close>),
  \<^verbatim>\<open>icp_irq(server, i + offset, priority)\<close> is called. So a masked source with REJECTED set
  loses the bit, without any delivery: its status is the old one with REJECTED cleared, and
  no presenter or pin changes.
\<close>

theorem resend_msi_spec:
  assumes "irq_valid st i"
  shows "resend_msi st i =
     (if status (get_irq st i) AND XICS_STATUS_REJECTED = 0 then Some st
      else if priority (get_irq st i) = 0xff
      then Some (upd_irq st i (\<lambda>irq. irq\<lparr>status := status irq AND NOT XICS_STATUS_REJECTED\<rparr>))
      else icp_irq (upd_irq st i (\<lambda>irq. irq\<lparr>status := status irq AND NOT XICS_STATUS_REJECTED\<rparr>))
             (server (get_irq st i)) (i + offset st) (priority (get_irq st i)))
   \<and> (status (get_irq st i) AND XICS_STATUS_REJECTED \<noteq> 0 \<and> priority (get_irq st i) = 0xff \<longrightarrow>
        (\<exists>st'. resend_msi st i = Some st'
           \<and> status (get_irq st' i) = status (get_irq st i) AND NOT XICS_STATUS_REJECTED
           \<and> status (get_irq st' i) AND XICS_STATUS_REJECTED = 0
           \<and> ss st' = ss st \<and> pin_trace st' = pin_trace st))"
  using assms by (simp add: resend_msi_def Let_def and.assoc)

text \<open>
  The claim C4 as it was stated says that a masked source with REJECTED set keeps its
  status. On a masked message-signalled source with status REJECTED, \<^verbatim>\<open>resend_msi\<close>
  returns the state in which the status is 0.
\<close>

theorem resend_msi_masked_counterexample:
  "status (get_irq \<lparr>ss = [\<lparr>xirr = 0xff000000, pending_priority = 0, mfrr = 0xff, output_pin = False\<rparr>],
                    irqs = [\<lparr>server = 0, priority = 0xff, saved_priority = 5, status = 4, lsi = False\<rparr>],
                    offset = 16, pin_trace = []\<rparr> 0) AND XICS_STATUS_REJECTED = XICS_STATUS_REJECTED
   \<and> priority (get_irq \<lparr>ss = [\<lparr>xirr = 0xff000000, pending_priority = 0, mfrr = 0xff, output_pin = False\<rparr>],
                    irqs = [\<lparr>server = 0, priority = 0xff, saved_priority = 5, status = 4, lsi = False\<rparr>],
                    offset = 16, pin_trace = []\<rparr> 0) = 0xff
   \<and> resend_msi \<lparr>ss = [\<lparr>xirr = 0xff000000, pending_priority = 0, mfrr = 0xff, output_pin = False\<rparr>],
                  irqs = [\<lparr>server = 0, priority = 0xff, saved_priority = 5, status = 4, lsi = False\<rparr>],
                  offset = 16, pin_trace = []\<rparr> 0
       = Some \<lparr>ss = [\<lparr>xirr = 0xff000000, pending_priority = 0, mfrr = 0xff, output_pin = False\<rparr>],
                irqs = [\<lparr>server = 0, priority = 0xff, saved_priority = 5, status = 0, lsi = False\<rparr>],
                offset = 16, pin_trace = []\<rparr>"
  by code_simp

theorem resend_msi_spec_witness:
  "irq_valid \<lparr>ss = [\<lparr>xirr = 0xff000000, pending_priority = 0, mfrr = 0xff, output_pin = False\<rparr>],
              irqs = [\<lparr>server = 0, priority = 0xff, saved_priority = 5, status = 12, lsi = False\<rparr>],
              offset = 16, pin_trace = []\<rparr> 0
   \<and> (\<exists>st'. resend_msi \<lparr>ss = [\<lparr>xirr = 0xff000000, pending_priority = 0, mfrr = 0xff, output_pin = False\<rparr>],
              irqs = [\<lparr>server = 0, priority = 0xff, saved_priority = 5, status = 12, lsi = False\<rparr>],
              offset = 16, pin_trace = []\<rparr> 0 = Some st'
          \<and> status (get_irq st' 0) = 8)"
proof -
  let ?S = "\<lparr>ss = [\<lparr>xirr = 0xff000000, pending_priority = 0, mfrr = 0xff, output_pin = False\<rparr>],
              irqs = [\<lparr>server = 0, priority = 0xff, saved_priority = 5, status = 12, lsi = False\<rparr>],
              offset = 16, pin_trace = []\<rparr>"
  have v: "irq_valid ?S 0"
    by (simp add: irq_valid_def nr_irqs_def)
  have q: "status (get_irq ?S 0) = 12" "priority (get_irq ?S 0) = 0xff"
    by (simp_all add: get_irq_def)
  have b: "(12 :: 8 word) AND XICS_STATUS_REJECTED \<noteq> 0" "(12 :: 8 word) AND NOT XICS_STATUS_REJECTED = 8"
    by (simp_all add: XICS_STATUS_REJECTED_def)
  from resend_msi_spec [OF v] show ?thesis
    using v unfolding q by (auto simp: b)
qed

subsection \<open>Setting the processor priority\<close>

lemma cppr_set_cppr:
  "drop_bit 24 ((x AND NOT CPPR_MASK) OR push_bit 24 (ucast (c :: 8 word))) = (ucast c :: 32 word)"
  unfolding CPPR_MASK_mask
  by (rule bit_word_eqI) (auto simp: bit_simps dest: bit_imp_le_length)

lemma xisr_set_cppr:
  "((x AND NOT CPPR_MASK) OR push_bit 24 (ucast (c :: 8 word))) AND XISR_MASK = (x :: 32 word) AND XISR_MASK"
  unfolding CPPR_MASK_mask XISR_MASK_mask
  by (rule bit_word_eqI) (auto simp: bit_simps)

lemma clear_xisr_set_cppr:
  "((x AND NOT CPPR_MASK) OR push_bit 24 (ucast (c :: 8 word))) AND NOT XISR_MASK
     = (push_bit 24 (ucast c) :: 32 word)"
  unfolding CPPR_MASK_mask XISR_MASK_mask
  by (rule bit_word_eqI) (auto simp: bit_simps)

lemma cppr_clear_xisr: "drop_bit 24 (x AND NOT XISR_MASK) = drop_bit 24 (x :: 32 word)"
  unfolding XISR_MASK_mask
  by (rule bit_word_eqI) (auto simp: bit_simps dest: bit_imp_le_length)

lemma ipi_fits:
  assumes "ipi AND CPPR_MASK = 0"
  shows "ipi AND XISR_MASK = (ipi :: 32 word)"
proof (rule bit_word_eqI)
  fix n
  assume "n < LENGTH(32)"
  have "\<not> bit (ipi AND NOT (mask 24)) n"
    using assms by (simp add: CPPR_MASK_mask)
  then show "bit (ipi AND XISR_MASK) n = bit ipi n"
    by (auto simp: bit_simps XISR_MASK_mask dest: bit_imp_le_length)
qed

lemma CPPR_byte: "uint (CPPR s) < 256"
proof -
  have "uint (xirr s) < 4294967296"
    using uint_lt2p [of "xirr s"] by simp
  then have "uint (xirr s) div 16777216 < 256"
    by arith
  then show ?thesis
    by (simp add: CPPR_def drop_bit_eq_div uint_div)
qed

lemma old_cppr_less: "(c < (ucast (CPPR s) :: 8 word)) \<longleftrightarrow> (ucast c :: 32 word) < CPPR s"
proof -
  have a: "uint (ucast (CPPR s) :: 8 word) = uint (CPPR s)"
    using CPPR_byte [of s] by (simp add: unsigned_ucast_eq take_bit_int_eq_self)
  have b: "uint (ucast c :: 32 word) = uint c"
    using uint_lt2p [of c] by (simp add: unsigned_ucast_eq take_bit_int_eq_self)
  show ?thesis
    by (simp add: word_less_def a b)
qed

text \<open>Deliveries and the resend pass keep the CPPR of every presenter.\<close>

lemma cpprs_upd_ss:
  assumes "ss_valid st sv" and "CPPR (f (get_ss st sv)) = CPPR (get_ss st sv)"
  shows "map CPPR (ss (upd_ss st sv f)) = map CPPR (ss st)"
proof -
  have n: "nat sv < length (ss st)"
    using assms(1) by (simp add: ss_valid_def nr_servers_def nat_less_iff)
  then have "(map CPPR (ss st))[nat sv := CPPR (f (ss st ! nat sv))] = map CPPR (ss st)"
    using assms(2) by (simp add: list_update_same_conv get_ss_def)
  then show ?thesis
    by (simp add: upd_ss_def map_update)
qed

lemma cpprs_set_irq:
  "ss_valid st sv \<Longrightarrow> map CPPR (ss (qemu_set_irq st sv l)) = map CPPR (ss st)"
  unfolding qemu_set_irq_ss by (rule cpprs_upd_ss) (simp_all add: CPPR_def)

lemma cpprs_get:
  assumes "map CPPR (ss st') = map CPPR (ss st)"
  shows "ss_valid st' sv = ss_valid st sv"
    and "ss_valid st sv \<Longrightarrow> CPPR (get_ss st' sv) = CPPR (get_ss st sv)"
proof -
  have l: "length (ss st') = length (ss st)"
    using assms by (rule map_eq_imp_length_eq)
  then show "ss_valid st' sv = ss_valid st sv"
    by (simp add: ss_valid_def nr_servers_def)
  assume "ss_valid st sv"
  then have n: "nat sv < length (ss st)"
    by (simp add: ss_valid_def nr_servers_def nat_less_iff)
  have "map CPPR (ss st') ! nat sv = map CPPR (ss st) ! nat sv"
    using assms by simp
  then show "CPPR (get_ss st' sv) = CPPR (get_ss st sv)"
    using n l by (simp add: get_ss_def)
qed

lemma CPPR_eqI:
  "xirr s' = (xirr s AND NOT XISR_MASK) OR (w AND XISR_MASK) \<Longrightarrow> CPPR s' = CPPR s"
  by (simp only: CPPR_def cppr_set_xisr)

lemma icp_irq_cpprs:
  assumes "icp_irq st sv nr prio = Some st'"
  shows "map CPPR (ss st') = map CPPR (ss st)"
proof -
  have v: "ss_valid st sv"
    using assms by (auto simp: icp_irq_def split: if_splits)
  show ?thesis
  proof (cases "CPPR (get_ss st sv) \<le> ucast prio
            \<or> (XISR (get_ss st sv) \<noteq> 0 \<and> pending_priority (get_ss st sv) \<le> prio)")
    case True
    then have "ics_reject st nr = Some st'"
      using assms v by (simp add: icp_irq_def)
    then show ?thesis
      by (simp add: ics_reject_frame)
  next
    case False
    then obtain st1 where
      o: "(if XISR (get_ss st sv) \<noteq> 0 then ics_reject st (uint (XISR (get_ss st sv)))
           else Some st) = Some st1"
      and r: "st' = qemu_irq_raise
            (upd_ss st1 sv (\<lambda>s. s\<lparr>xirr := (xirr s AND NOT XISR_MASK) OR (word_of_int nr AND XISR_MASK),
                                   pending_priority := prio\<rparr>)) sv"
      using assms v unfolding icp_irq_def if_not_P [OF False]
      by (auto split: option.splits)
    have fr: "ss st1 = ss st"
      using o by (auto simp: ics_reject_frame split: if_splits)
    then have v1: "ss_valid st1 sv"
      using v by (simp add: ss_valid_def nr_servers_def)
    have "map CPPR (ss st') = map CPPR (ss st1)"
      unfolding r qemu_irq_raise_def using v1
      by (simp add: cpprs_set_irq cpprs_upd_ss CPPR_eqI [where w = "word_of_int nr"])
    then show ?thesis
      by (simp add: fr)
  qed
qed

lemma icp_check_ipi_cpprs:
  assumes "icp_check_ipi ipi st sv = Some st'" and ipi: "ipi AND CPPR_MASK = 0"
  shows "map CPPR (ss st') = map CPPR (ss st)"
proof -
  have v: "ss_valid st sv"
    using assms by (auto simp: icp_check_ipi_def split: if_splits)
  show ?thesis
  proof (cases "XISR (get_ss st sv) \<noteq> 0 \<and> pending_priority (get_ss st sv) \<le> mfrr (get_ss st sv)")
    case True
    then have "st' = st"
      using assms v by (simp add: icp_check_ipi_def)
    then show ?thesis
      by simp
  next
    case False
    then obtain st1 where
      o: "(if XISR (get_ss st sv) \<noteq> 0 then ics_reject st (uint (XISR (get_ss st sv)))
           else Some st) = Some st1"
      and r: "st' = qemu_irq_raise
            (upd_ss st1 sv (\<lambda>s. s\<lparr>xirr := (xirr s AND NOT XISR_MASK) OR ipi,
                                   pending_priority := mfrr s\<rparr>)) sv"
      using assms v unfolding icp_check_ipi_def if_not_P [OF False]
      by (auto split: option.splits)
    have fr: "ss st1 = ss st"
      using o by (auto simp: ics_reject_frame split: if_splits)
    then have v1: "ss_valid st1 sv"
      using v by (simp add: ss_valid_def nr_servers_def)
    have "map CPPR (ss st') = map CPPR (ss st1)"
      unfolding r qemu_irq_raise_def using v1
      by (simp add: cpprs_set_irq cpprs_upd_ss CPPR_eqI [where w = ipi] ipi_fits [OF ipi])
    then show ?thesis
      by (simp add: fr)
  qed
qed

lemma resend_msi_cpprs:
  "resend_msi st i = Some st' \<Longrightarrow> map CPPR (ss st') = map CPPR (ss st)"
  by (auto simp: resend_msi_def Let_def split: if_splits dest!: icp_irq_cpprs)

lemma resend_lsi_cpprs:
  "resend_lsi st i = Some st' \<Longrightarrow> map CPPR (ss st') = map CPPR (ss st)"
  by (auto simp: resend_lsi_def Let_def split: if_splits dest!: icp_irq_cpprs)

lemma ics_resend_body_cpprs:
  "ics_resend_body st i = Some st' \<Longrightarrow> map CPPR (ss st') = map CPPR (ss st)"
  by (auto simp: ics_resend_body_def split: if_splits dest: resend_lsi_cpprs resend_msi_cpprs)

lemma ics_resend_loop_cpprs:
  "ics_resend_loop st i = Some st' \<Longrightarrow> map CPPR (ss st') = map CPPR (ss st)"
proof (induction st i rule: ics_resend_loop.induct)
  case (1 st i)
  show ?case
  proof (cases "int i < nr_irqs st")
    case True
    with "1.prems" obtain st1 where b: "ics_resend_body st i = Some st1"
      and l: "ics_resend_loop st1 (Suc i) = Some st'"
      by (subst (asm) ics_resend_loop.simps) (auto split: option.splits)
    from "1.IH" [OF True b l] ics_resend_body_cpprs [OF b] show ?thesis
      by simp
  next
    case False
    with "1.prems" show ?thesis
      by (subst (asm) ics_resend_loop.simps) simp
  qed
qed

lemma icp_resend_cpprs:
  assumes "icp_resend ipi st sv = Some st'" and "ipi AND CPPR_MASK = 0"
  shows "map CPPR (ss st') = map CPPR (ss st)"
  using assms
  by (auto simp: icp_resend_def ics_resend_def split: if_splits option.splits
           dest!: ics_resend_loop_cpprs icp_check_ipi_cpprs)

lemma upd_ss_twice:
  "ss_valid st sv \<Longrightarrow> upd_ss (upd_ss st sv f) sv g = upd_ss st sv (\<lambda>s. g (f s))"
  by (simp add: upd_ss_def ss_valid_def nr_servers_def nat_less_iff)

lemma upd_ss_cong:
  "f (get_ss st sv) = g (get_ss st sv) \<Longrightarrow> upd_ss st sv f = upd_ss st sv g"
  by (simp add: upd_ss_def get_ss_def)

text \<open>
  Claim C6. \<^verbatim>\<open>icp_set_cppr(server, cppr)\<close> on a presenter of the array. Whenever the call
  returns, CPPR of the presenter is \<open>cppr\<close>. If \<open>cppr\<close> is below the old CPPR and an XISR is
  pending with \<open>pending_priority \<ge> cppr\<close>, the call clears XISR (the register becomes
  \<open>cppr << 24\<close>), lowers the pin and ends with \<^verbatim>\<open>ics_reject(old_xisr)\<close>; if \<open>cppr\<close> is below
  the old CPPR otherwise, only CPPR changes. If \<open>cppr\<close> is not below the old CPPR and no XISR
  is pending, the call ends with \<^verbatim>\<open>icp_resend(server)\<close>; with an XISR pending only CPPR
  changes. \<^verbatim>\<open>XICS_IPI\<close> is an interrupt number, so it has no bit in the CPPR byte.
\<close>

theorem icp_set_cppr_spec:
  assumes v: "ss_valid st sv" and ipi: "ipi AND CPPR_MASK = 0"
  shows
    "(\<forall>st'. icp_set_cppr ipi st sv cppr = Some st' \<longrightarrow> CPPR (get_ss st' sv) = ucast cppr)
   \<and> (if ucast cppr < CPPR (get_ss st sv)
      then (if XISR (get_ss st sv) \<noteq> 0 \<and> cppr \<le> pending_priority (get_ss st sv)
            then icp_set_cppr ipi st sv cppr
                   = ics_reject
                       (qemu_irq_lower (upd_ss st sv (\<lambda>s. s\<lparr>xirr := push_bit 24 (ucast cppr)\<rparr>)) sv)
                       (uint (XISR (get_ss st sv)))
                 \<and> (\<forall>st'. icp_set_cppr ipi st sv cppr = Some st' \<longrightarrow>
                        XISR (get_ss st' sv) = 0 \<and> \<not> output_pin (get_ss st' sv))
            else icp_set_cppr ipi st sv cppr
                   = Some (upd_ss st sv
                       (\<lambda>s. s\<lparr>xirr := (xirr s AND NOT CPPR_MASK) OR push_bit 24 (ucast cppr)\<rparr>)))
      else (if XISR (get_ss st sv) = 0
            then icp_set_cppr ipi st sv cppr
                   = icp_resend ipi
                       (upd_ss st sv
                          (\<lambda>s. s\<lparr>xirr := (xirr s AND NOT CPPR_MASK) OR push_bit 24 (ucast cppr)\<rparr>))
                       sv
            else icp_set_cppr ipi st sv cppr
                   = Some (upd_ss st sv
                       (\<lambda>s. s\<lparr>xirr := (xirr s AND NOT CPPR_MASK) OR push_bit 24 (ucast cppr)\<rparr>))))"
proof -
  let ?f = "\<lambda>s. s\<lparr>xirr := (xirr s AND NOT CPPR_MASK) OR push_bit 24 (ucast cppr)\<rparr>"
  let ?st1 = "upd_ss st sv ?f"
  let ?st3 = "qemu_irq_lower (upd_ss st sv (\<lambda>s. s\<lparr>xirr := push_bit 24 (ucast cppr)\<rparr>)) sv"
  let ?old = "uint (XISR (get_ss st sv))"
  have g1: "get_ss ?st1 sv = ?f (get_ss st sv)"
    using v by simp
  have x1: "XISR (get_ss ?st1 sv) = XISR (get_ss st sv)"
    unfolding g1 XISR_def by (simp add: xisr_set_cppr)
  have "xirr (get_ss ?st1 sv) = (xirr (get_ss st sv) AND NOT CPPR_MASK) OR push_bit 24 (ucast cppr)"
    unfolding g1 by simp
  then have c1: "CPPR (get_ss ?st1 sv) = ucast cppr"
    unfolding CPPR_def by (simp only: cppr_set_cppr)
  have p1: "pending_priority (get_ss ?st1 sv) = pending_priority (get_ss st sv)"
    unfolding g1 by simp
  have v1: "ss_valid ?st1 sv"
    using v by simp
  have st3: "qemu_irq_lower (upd_ss ?st1 sv (\<lambda>s. s\<lparr>xirr := xirr s AND NOT XISR_MASK\<rparr>)) sv = ?st3"
    unfolding upd_ss_twice [OF v]
    by (rule arg_cong [where f = "\<lambda>t. qemu_irq_lower t sv"], rule upd_ss_cong)
       (simp add: clear_xisr_set_cppr)
  have e: "icp_set_cppr ipi st sv cppr =
      (if ucast cppr < CPPR (get_ss st sv)
       then (if XISR (get_ss st sv) \<noteq> 0 \<and> cppr \<le> pending_priority (get_ss st sv)
             then ics_reject ?st3 ?old else Some ?st1)
       else (if XISR (get_ss st sv) = 0 then icp_resend ipi ?st1 sv else Some ?st1))"
    using v unfolding icp_set_cppr_def Let_def old_cppr_less x1 p1 st3 by simp
  have g3: "get_ss ?st3 sv = (get_ss st sv)\<lparr>xirr := push_bit 24 (ucast cppr), output_pin := False\<rparr>"
    using v by (simp add: qemu_irq_lower_def)
  have r3: "CPPR (get_ss st' sv) = ucast cppr \<and> XISR (get_ss st' sv) = 0 \<and> \<not> output_pin (get_ss st' sv)"
    if "ics_reject ?st3 ?old = Some st'" for st'
  proof -
    have "get_ss st' sv = get_ss ?st3 sv"
      using that by (rule ics_reject_get_ss)
    then show ?thesis
      unfolding g3 by (simp add: CPPR_def XISR_def cppr_of_shifted_priority xisr_of_shifted_priority)
  qed
  have r4: "CPPR (get_ss st' sv) = ucast cppr" if "icp_resend ipi ?st1 sv = Some st'" for st'
    using cpprs_get(2) [OF icp_resend_cpprs [OF that ipi] v1] c1 by simp
  have a: "\<forall>st'. icp_set_cppr ipi st sv cppr = Some st' \<longrightarrow> CPPR (get_ss st' sv) = ucast cppr"
    unfolding e using r3 r4 c1 by (auto split: if_splits)
  show ?thesis
  proof (cases "ucast cppr < CPPR (get_ss st sv)")
    case True
    show ?thesis
    proof (cases "XISR (get_ss st sv) \<noteq> 0 \<and> cppr \<le> pending_priority (get_ss st sv)")
      case w: True
      have "icp_set_cppr ipi st sv cppr = ics_reject ?st3 ?old"
        unfolding e using True w by simp
      then show ?thesis
        using a r3 unfolding if_P [OF True] if_P [OF w] by simp
    next
      case w: False
      have "icp_set_cppr ipi st sv cppr = Some ?st1"
        unfolding e using True w by auto
      then show ?thesis
        using a unfolding if_P [OF True] if_not_P [OF w] by simp
    qed
  next
    case False
    have "icp_set_cppr ipi st sv cppr =
            (if XISR (get_ss st sv) = 0 then icp_resend ipi ?st1 sv else Some ?st1)"
      unfolding e using False by simp
    then show ?thesis
      using a unfolding if_not_P [OF False] by (simp split: if_splits)
  qed
qed

theorem icp_set_cppr_spec_witness:
  "ss_valid \<lparr>ss = [\<lparr>xirr = 0xff000010, pending_priority = 5, mfrr = 0xff, output_pin = True\<rparr>],
            irqs = [\<lparr>server = 0, priority = 5, saved_priority = 5, status = 0, lsi = False\<rparr>],
            offset = 16, pin_trace = []\<rparr> 0
   \<and> (2 :: 32 word) AND CPPR_MASK = 0
   \<and> (\<exists>st'. icp_set_cppr 2 \<lparr>ss = [\<lparr>xirr = 0xff000010, pending_priority = 5, mfrr = 0xff, output_pin = True\<rparr>],
            irqs = [\<lparr>server = 0, priority = 5, saved_priority = 5, status = 0, lsi = False\<rparr>],
            offset = 16, pin_trace = []\<rparr> 0 3 = Some st'
          \<and> CPPR (get_ss st' 0) = 3 \<and> XISR (get_ss st' 0) = 0 \<and> \<not> output_pin (get_ss st' 0)
          \<and> status (get_irq st' 0) = XICS_STATUS_REJECTED)"
proof -
  let ?S = "\<lparr>ss = [\<lparr>xirr = 0xff000010, pending_priority = 5, mfrr = 0xff, output_pin = True\<rparr>],
            irqs = [\<lparr>server = 0, priority = 5, saved_priority = 5, status = 0, lsi = False\<rparr>],
            offset = 16, pin_trace = []\<rparr>"
  let ?S' = "\<lparr>ss = [\<lparr>xirr = 0x03000000, pending_priority = 5, mfrr = 0xff, output_pin = False\<rparr>],
            irqs = [\<lparr>server = 0, priority = 5, saved_priority = 5, status = 4, lsi = False\<rparr>],
            offset = 16,
            pin_trace = [(0, \<lparr>xirr = 0x03000000, pending_priority = 5, mfrr = 0xff, output_pin = False\<rparr>)]\<rparr>"
  have v: "ss_valid ?S 0"
    by (simp add: ss_valid_def nr_servers_def)
  have i: "(2 :: 32 word) AND CPPR_MASK = 0"
    by (simp add: CPPR_MASK_def)
  have c: "CPPR (get_ss ?S 0) = 0xff" "XISR (get_ss ?S 0) = 16" "pending_priority (get_ss ?S 0) = 5"
    by (simp_all add: CPPR_def XISR_def XISR_MASK_def get_ss_def)
  have r: "icp_set_cppr 2 ?S 0 3 = Some ?S'"
    by code_simp
  have q: "status (get_irq ?S' 0) = XICS_STATUS_REJECTED"
    by (simp add: get_irq_def XICS_STATUS_REJECTED_def)
  have "CPPR (get_ss ?S' 0) = 3 \<and> XISR (get_ss ?S' 0) = 0 \<and> \<not> output_pin (get_ss ?S' 0)"
    using icp_set_cppr_spec [OF v i, of 3] unfolding c r by simp
  with v i r q show ?thesis
    by blast
qed

subsection \<open>What one operation does to the sources\<close>

lemma irq_kept_stepped: "irq_kept q q' \<Longrightarrow> irq_stepped q q'"
  by (auto simp: irq_kept_def irq_stepped_def)

lemma sources_kept_stepped: "sources_kept st st' \<Longrightarrow> sources_stepped st st'"
  unfolding sources_kept_def sources_stepped_def
  by (auto elim!: list_all2_mono intro: irq_kept_stepped)

lemma list_all2_update_self:
  assumes "\<And>x. P x x" and "P (xs ! n) y"
  shows "list_all2 P xs (xs[n := y])"
proof -
  have "list_all2 P (xs[n := xs ! n]) (xs[n := y])"
    using assms by (intro list_all2_update_cong) (simp_all add: list_all2_refl)
  then show ?thesis
    by simp
qed

lemma ics_write_xive_stepped:
  assumes "ics_write_xive st nr sv prio saved = Some st'"
  shows "sources_stepped st st'"
proof -
  let ?st1 = "upd_irq st (nr - offset st)
                (\<lambda>irq. irq\<lparr>server := sv, priority := prio, saved_priority := saved\<rparr>)"
  have k: "sources_kept ?st1 st'"
    using assms by (rule ics_write_xive_kept)
  have "list_all2 (\<lambda>q q1. status q1 = status q \<and> lsi q1 = lsi q) (irqs st) (irqs ?st1)"
    unfolding upd_irq_def by (simp add: list_all2_update_self)
  moreover have "list_all2 irq_kept (irqs ?st1) (irqs st')"
    using k by (simp add: sources_kept_def)
  ultimately have "list_all2 irq_stepped (irqs st) (irqs st')"
    by (rule list_all2_trans [rotated]) (auto simp: irq_kept_def irq_stepped_def)
  moreover have "offset st' = offset st"
    using k by (simp add: sources_kept_def)
  ultimately show ?thesis
    by (simp add: sources_stepped_def)
qed

lemma reset_loop_irqs:
  "irqs (fold (\<lambda>i s. qemu_set_irq (upd_ss s (int i) f) (int i) l) is st) = irqs st"
  "offset (fold (\<lambda>i s. qemu_set_irq (upd_ss s (int i) f) (int i) l) is st) = offset st"
  by (induction "is" arbitrary: st) simp_all

lemma xics_reset_stepped: "sources_stepped st (xics_reset st)"
  by (simp add: xics_reset_def Let_def sources_stepped_def reset_loop_irqs
        list_all2_conv_all_nth irq_stepped_def)

lemma xics_step_stepped:
  assumes "xics_step ipi st op = Some st'" and "\<forall>irq l. op \<noteq> Set_irq_type irq l"
  shows "sources_stepped st st'"
proof (cases op)
  case (Set_irq srcno val)
  then show ?thesis
    using assms ics_set_irq_kept [of st srcno val st' st]
    by (simp add: sources_kept_stepped)
next
  case (Hcall_cppr cpu a0)
  then show ?thesis
    using assms icp_set_cppr_kept [of ipi st cpu _ st' st]
    by (auto simp: h_cppr_def sources_kept_stepped split: option.splits)
next
  case (Hcall_ipi a0 a1)
  then show ?thesis
    using assms icp_set_mfrr_kept [of ipi st _ _ st' st]
    by (auto simp: h_ipi_def sources_kept_stepped split: option.splits if_splits)
next
  case (Hcall_xirr cpu)
  then show ?thesis
    using assms icp_accept_kept [of st cpu _ st' st]
    by (auto simp: h_xirr_def sources_kept_stepped split: option.splits)
next
  case (Hcall_eoi cpu a0)
  then show ?thesis
    using assms icp_eoi_kept [of ipi st cpu _ st' st]
    by (auto simp: h_eoi_def sources_kept_stepped split: option.splits)
next
  case (Rtas_set_xive nargs args nret)
  then show ?thesis
    using assms
    by (auto simp: rtas_set_xive_def Let_def sources_kept_stepped
             split: option.splits if_splits dest: ics_write_xive_stepped)
next
  case (Rtas_get_xive nargs args nret)
  then show ?thesis
    using assms
    by (auto simp: rtas_get_xive_def Let_def sources_kept_stepped split: if_splits)
next
  case (Rtas_int_off nargs args nret)
  then show ?thesis
    using assms
    by (auto simp: rtas_int_off_def Let_def sources_kept_stepped
             split: option.splits if_splits dest: ics_write_xive_stepped)
next
  case (Rtas_int_on nargs args nret)
  then show ?thesis
    using assms
    by (auto simp: rtas_int_on_def Let_def sources_kept_stepped
             split: option.splits if_splits dest: ics_write_xive_stepped)
next
  case Reset
  then show ?thesis
    using assms by (auto simp: xics_reset_stepped)
next
  case (Set_irq_type irq l)
  then show ?thesis
    using assms by simp
qed

lemma sources_stepped_get:
  assumes "sources_stepped st st'" and "irq_valid st i"
  shows "irq_stepped (get_irq st i) (get_irq st' i)"
  using assms
  by (simp add: sources_stepped_def irq_valid_def nr_irqs_def get_irq_def list_all2_nthD
        nat_less_iff)

lemma status_upd_irq:
  assumes "irq_valid st i" and "\<And>q. status (f q) = status q"
  shows "status (get_irq (upd_irq st j f) i) = status (get_irq st i)"
proof -
  have "nat i < length (irqs st)"
    using assms(1) by (simp add: irq_valid_def nr_irqs_def nat_less_iff)
  then show ?thesis
    using assms(2) by (cases "nat j = nat i") (simp_all add: get_irq_def upd_irq_def)
qed

text \<open>
  Claim C7, as the code has it. No operation sets the SENT bit of a source that is masked
  (priority 0xFF) when the operation returns: if the bit was clear before, it is clear
  after (an operation that changes the priority writes it before it tries to deliver);
  \<^verbatim>\<open>resend_lsi\<close>, the only function that sets SENT, does nothing on a masked source.
  A message-signalled source that is asserted with \<^verbatim>\<open>ics_set_irq\<close> while masked acquires
  the MASKED_PENDING bit, and nothing else changes: there is no delivery. A level-sensitive
  source that is asserted while masked acquires the ASSERTED bit instead, and nothing else
  changes either; MASKED_PENDING is a bit of message-signalled sources only.
\<close>

theorem masked_source_spec:
  "(xics_step ipi st op = Some st' \<and> irq_valid st i
      \<and> status (get_irq st i) AND XICS_STATUS_SENT = 0 \<and> priority (get_irq st' i) = 0xff
      \<longrightarrow> status (get_irq st' i) AND XICS_STATUS_SENT = 0)
   \<and> (irq_valid st i \<and> priority (get_irq st i) = 0xff \<longrightarrow> resend_lsi st i = Some st)
   \<and> (irq_valid st i \<and> \<not> lsi (get_irq st i) \<and> priority (get_irq st i) = 0xff \<and> val \<noteq> 0 \<longrightarrow>
        ics_set_irq st i val
          = Some (upd_irq st i (\<lambda>irq. irq\<lparr>status := status irq OR XICS_STATUS_MASKED_PENDING\<rparr>)))
   \<and> (irq_valid st i \<and> lsi (get_irq st i) \<and> priority (get_irq st i) = 0xff \<and> val \<noteq> 0 \<longrightarrow>
        ics_set_irq st i val
          = Some (upd_irq st i (\<lambda>irq. irq\<lparr>status := status irq OR XICS_STATUS_ASSERTED\<rparr>)))"
proof -
  have a: "status (get_irq st' i) AND XICS_STATUS_SENT = 0"
    if s: "xics_step ipi st op = Some st'" and v: "irq_valid st i"
      and u: "status (get_irq st i) AND XICS_STATUS_SENT = 0"
      and m: "priority (get_irq st' i) = 0xff"
  proof (cases "\<exists>irq l. op = Set_irq_type irq l")
    case True
    then obtain irq l where "op = Set_irq_type irq l"
      by blast
    with s have "st' = upd_irq st (irq - offset st) (\<lambda>q. q\<lparr>lsi := l\<rparr>)"
      by (auto simp: xics_set_irq_type_def split: if_splits)
    then show ?thesis
      using u v by (simp add: status_upd_irq)
  next
    case False
    then have "sources_stepped st st'"
      using s by (intro xics_step_stepped) auto
    then have "irq_stepped (get_irq st i) (get_irq st' i)"
      using v by (rule sources_stepped_get)
    then show ?thesis
      using u m by (auto simp: irq_stepped_def)
  qed
  have b: "resend_lsi st i = Some st" if "irq_valid st i" and "priority (get_irq st i) = 0xff"
    using that by (simp add: resend_lsi_def)
  have c: "ics_set_irq st i val
          = Some (upd_irq st i (\<lambda>irq. irq\<lparr>status := status irq OR XICS_STATUS_MASKED_PENDING\<rparr>))"
    if "irq_valid st i" and "\<not> lsi (get_irq st i)" and "priority (get_irq st i) = 0xff"
      and "val \<noteq> 0"
    using that by (simp add: ics_set_irq_def set_irq_msi_def)
  have d: "ics_set_irq st i val
          = Some (upd_irq st i (\<lambda>irq. irq\<lparr>status := status irq OR XICS_STATUS_ASSERTED\<rparr>))"
    if "irq_valid st i" and "lsi (get_irq st i)" and "priority (get_irq st i) = 0xff"
      and "val \<noteq> 0"
    using that by (simp add: ics_set_irq_def set_irq_lsi_def resend_lsi_def Let_def)
  from a b c d show ?thesis
    by blast
qed

text \<open>
  The claim C7 as it was stated gives MASKED_PENDING to every source that is asserted while
  masked. After \<^verbatim>\<open>xics_system_init\<close>, making source 16 level-sensitive and a reset, the
  source is masked; asserting it sets ASSERTED (status 1), and MASKED_PENDING stays clear.
\<close>

theorem lsi_masked_assert_counterexample:
  "xics_run 2 (xics_system_init 1 1) [Set_irq_type 16 True, Reset] = Some \<lparr>ss = [\<lparr>xirr = 0, pending_priority = 0, mfrr = 0xff, output_pin = False\<rparr>],
        irqs = [\<lparr>server = 0, priority = 0xff, saved_priority = 0xff, status = 0, lsi = True\<rparr>],
        offset = 16,
        pin_trace = [(0, \<lparr>xirr = 0, pending_priority = 0, mfrr = 0xff, output_pin = False\<rparr>)]\<rparr>
   \<and> priority (get_irq \<lparr>ss = [\<lparr>xirr = 0, pending_priority = 0, mfrr = 0xff, output_pin = False\<rparr>],
        irqs = [\<lparr>server = 0, priority = 0xff, saved_priority = 0xff, status = 0, lsi = True\<rparr>],
        offset = 16,
        pin_trace = [(0, \<lparr>xirr = 0, pending_priority = 0, mfrr = 0xff, output_pin = False\<rparr>)]\<rparr> 0) = 0xff
   \<and> ics_set_irq \<lparr>ss = [\<lparr>xirr = 0, pending_priority = 0, mfrr = 0xff, output_pin = False\<rparr>],
        irqs = [\<lparr>server = 0, priority = 0xff, saved_priority = 0xff, status = 0, lsi = True\<rparr>],
        offset = 16,
        pin_trace = [(0, \<lparr>xirr = 0, pending_priority = 0, mfrr = 0xff, output_pin = False\<rparr>)]\<rparr> 0 1 = Some \<lparr>ss = [\<lparr>xirr = 0, pending_priority = 0, mfrr = 0xff, output_pin = False\<rparr>],
        irqs = [\<lparr>server = 0, priority = 0xff, saved_priority = 0xff, status = 1, lsi = True\<rparr>],
        offset = 16,
        pin_trace = [(0, \<lparr>xirr = 0, pending_priority = 0, mfrr = 0xff, output_pin = False\<rparr>)]\<rparr>
   \<and> status (get_irq \<lparr>ss = [\<lparr>xirr = 0, pending_priority = 0, mfrr = 0xff, output_pin = False\<rparr>],
        irqs = [\<lparr>server = 0, priority = 0xff, saved_priority = 0xff, status = 1, lsi = True\<rparr>],
        offset = 16,
        pin_trace = [(0, \<lparr>xirr = 0, pending_priority = 0, mfrr = 0xff, output_pin = False\<rparr>)]\<rparr> 0) AND XICS_STATUS_MASKED_PENDING = 0"
  by code_simp

theorem masked_source_spec_witness:
  "xics_step 2 \<lparr>ss = [\<lparr>xirr = 0, pending_priority = 0, mfrr = 0xff, output_pin = False\<rparr>],
        irqs = [\<lparr>server = 0, priority = 0xff, saved_priority = 5, status = 1, lsi = True\<rparr>,
                \<lparr>server = 0, priority = 0xff, saved_priority = 0xff, status = 0, lsi = False\<rparr>],
        offset = 16, pin_trace = []\<rparr> (Hcall_cppr 0 0xff) = Some \<lparr>ss = [\<lparr>xirr = 0xff000000, pending_priority = 0, mfrr = 0xff, output_pin = False\<rparr>],
        irqs = [\<lparr>server = 0, priority = 0xff, saved_priority = 5, status = 1, lsi = True\<rparr>,
                \<lparr>server = 0, priority = 0xff, saved_priority = 0xff, status = 0, lsi = False\<rparr>],
        offset = 16, pin_trace = []\<rparr>
   \<and> irq_valid \<lparr>ss = [\<lparr>xirr = 0, pending_priority = 0, mfrr = 0xff, output_pin = False\<rparr>],
        irqs = [\<lparr>server = 0, priority = 0xff, saved_priority = 5, status = 1, lsi = True\<rparr>,
                \<lparr>server = 0, priority = 0xff, saved_priority = 0xff, status = 0, lsi = False\<rparr>],
        offset = 16, pin_trace = []\<rparr> 0
   \<and> status (get_irq \<lparr>ss = [\<lparr>xirr = 0, pending_priority = 0, mfrr = 0xff, output_pin = False\<rparr>],
        irqs = [\<lparr>server = 0, priority = 0xff, saved_priority = 5, status = 1, lsi = True\<rparr>,
                \<lparr>server = 0, priority = 0xff, saved_priority = 0xff, status = 0, lsi = False\<rparr>],
        offset = 16, pin_trace = []\<rparr> 0) AND XICS_STATUS_SENT = 0
   \<and> priority (get_irq \<lparr>ss = [\<lparr>xirr = 0xff000000, pending_priority = 0, mfrr = 0xff, output_pin = False\<rparr>],
        irqs = [\<lparr>server = 0, priority = 0xff, saved_priority = 5, status = 1, lsi = True\<rparr>,
                \<lparr>server = 0, priority = 0xff, saved_priority = 0xff, status = 0, lsi = False\<rparr>],
        offset = 16, pin_trace = []\<rparr> 0) = 0xff
   \<and> status (get_irq \<lparr>ss = [\<lparr>xirr = 0xff000000, pending_priority = 0, mfrr = 0xff, output_pin = False\<rparr>],
        irqs = [\<lparr>server = 0, priority = 0xff, saved_priority = 5, status = 1, lsi = True\<rparr>,
                \<lparr>server = 0, priority = 0xff, saved_priority = 0xff, status = 0, lsi = False\<rparr>],
        offset = 16, pin_trace = []\<rparr> 0) AND XICS_STATUS_SENT = 0
   \<and> irq_valid \<lparr>ss = [\<lparr>xirr = 0, pending_priority = 0, mfrr = 0xff, output_pin = False\<rparr>],
        irqs = [\<lparr>server = 0, priority = 0xff, saved_priority = 5, status = 1, lsi = True\<rparr>,
                \<lparr>server = 0, priority = 0xff, saved_priority = 0xff, status = 0, lsi = False\<rparr>],
        offset = 16, pin_trace = []\<rparr> 1 \<and> \<not> lsi (get_irq \<lparr>ss = [\<lparr>xirr = 0, pending_priority = 0, mfrr = 0xff, output_pin = False\<rparr>],
        irqs = [\<lparr>server = 0, priority = 0xff, saved_priority = 5, status = 1, lsi = True\<rparr>,
                \<lparr>server = 0, priority = 0xff, saved_priority = 0xff, status = 0, lsi = False\<rparr>],
        offset = 16, pin_trace = []\<rparr> 1) \<and> priority (get_irq \<lparr>ss = [\<lparr>xirr = 0, pending_priority = 0, mfrr = 0xff, output_pin = False\<rparr>],
        irqs = [\<lparr>server = 0, priority = 0xff, saved_priority = 5, status = 1, lsi = True\<rparr>,
                \<lparr>server = 0, priority = 0xff, saved_priority = 0xff, status = 0, lsi = False\<rparr>],
        offset = 16, pin_trace = []\<rparr> 1) = 0xff
   \<and> ics_set_irq \<lparr>ss = [\<lparr>xirr = 0, pending_priority = 0, mfrr = 0xff, output_pin = False\<rparr>],
        irqs = [\<lparr>server = 0, priority = 0xff, saved_priority = 5, status = 1, lsi = True\<rparr>,
                \<lparr>server = 0, priority = 0xff, saved_priority = 0xff, status = 0, lsi = False\<rparr>],
        offset = 16, pin_trace = []\<rparr> 1 1 = Some \<lparr>ss = [\<lparr>xirr = 0, pending_priority = 0, mfrr = 0xff, output_pin = False\<rparr>],
        irqs = [\<lparr>server = 0, priority = 0xff, saved_priority = 5, status = 1, lsi = True\<rparr>,
                \<lparr>server = 0, priority = 0xff, saved_priority = 0xff, status = 8, lsi = False\<rparr>],
        offset = 16, pin_trace = []\<rparr>"
proof -
  let ?S = "\<lparr>ss = [\<lparr>xirr = 0, pending_priority = 0, mfrr = 0xff, output_pin = False\<rparr>],
        irqs = [\<lparr>server = 0, priority = 0xff, saved_priority = 5, status = 1, lsi = True\<rparr>,
                \<lparr>server = 0, priority = 0xff, saved_priority = 0xff, status = 0, lsi = False\<rparr>],
        offset = 16, pin_trace = []\<rparr>"
  let ?S1 = "\<lparr>ss = [\<lparr>xirr = 0xff000000, pending_priority = 0, mfrr = 0xff, output_pin = False\<rparr>],
        irqs = [\<lparr>server = 0, priority = 0xff, saved_priority = 5, status = 1, lsi = True\<rparr>,
                \<lparr>server = 0, priority = 0xff, saved_priority = 0xff, status = 0, lsi = False\<rparr>],
        offset = 16, pin_trace = []\<rparr>"
  let ?S2 = "\<lparr>ss = [\<lparr>xirr = 0, pending_priority = 0, mfrr = 0xff, output_pin = False\<rparr>],
        irqs = [\<lparr>server = 0, priority = 0xff, saved_priority = 5, status = 1, lsi = True\<rparr>,
                \<lparr>server = 0, priority = 0xff, saved_priority = 0xff, status = 8, lsi = False\<rparr>],
        offset = 16, pin_trace = []\<rparr>"
  have s: "xics_step 2 ?S (Hcall_cppr 0 0xff) = Some ?S1"
    by code_simp
  have v: "irq_valid ?S 0" "irq_valid ?S 1"
    by (simp_all add: irq_valid_def nr_irqs_def)
  have u: "status (get_irq ?S 0) AND XICS_STATUS_SENT = 0"
    by (simp add: get_irq_def XICS_STATUS_SENT_def)
  have m: "priority (get_irq ?S1 0) = 0xff"
    by (simp add: get_irq_def)
  have q: "\<not> lsi (get_irq ?S 1)" "priority (get_irq ?S 1) = 0xff"
    by (simp_all add: get_irq_def)
  have e: "upd_irq ?S 1 (\<lambda>irq. irq\<lparr>status := status irq OR XICS_STATUS_MASKED_PENDING\<rparr>) = ?S2"
    by (simp add: upd_irq_def XICS_STATUS_MASKED_PENDING_def)
  have r1: "status (get_irq ?S1 0) AND XICS_STATUS_SENT = 0"
    using masked_source_spec [where ipi = 2 and st = ?S and op = "Hcall_cppr 0 0xff"
        and st' = ?S1 and i = 0] s v u m by blast
  have r2: "ics_set_irq ?S 1 1 = Some ?S2"
    using masked_source_spec [where st = ?S and i = 1 and val = 1] v q unfolding e by simp
  from s v u m q r1 r2 show ?thesis
    by blast
qed

subsection \<open>Message-signalled sources and the SENT bit\<close>

lemma msi_unsent_init: "msi_unsent (xics_system_init n m)"
  by (simp add: msi_unsent_def xics_system_init_def)

lemma msi_unsent_stepped:
  assumes "msi_unsent st" and "sources_stepped st st'"
  shows "msi_unsent st'"
  unfolding msi_unsent_def
proof (intro ballI impI)
  fix q'
  assume "q' \<in> set (irqs st')" and m: "\<not> lsi q'"
  then obtain n where n: "n < length (irqs st')" and q': "q' = irqs st' ! n"
    by (auto simp: in_set_conv_nth)
  have l: "list_all2 irq_stepped (irqs st) (irqs st')"
    using assms(2) by (simp add: sources_stepped_def)
  then have n0: "n < length (irqs st)"
    using n by (simp add: list_all2_lengthD)
  have r: "irq_stepped (irqs st ! n) q'"
    unfolding q' using l n0 by (rule list_all2_nthD)
  have "irqs st ! n \<in> set (irqs st)"
    using n0 by simp
  with assms(1) r m have "status (irqs st ! n) AND XICS_STATUS_SENT = 0"
    by (auto simp: msi_unsent_def irq_stepped_def)
  with r m show "status q' AND XICS_STATUS_SENT = 0"
    by (auto simp: irq_stepped_def)
qed

lemma msi_unsent_step:
  assumes u: "msi_unsent st" and s: "xics_step ipi st op = Some st'" and r: "retype_safe st op"
  shows "msi_unsent st'"
proof (cases "\<exists>irq l. op = Set_irq_type irq l")
  case True
  then obtain irq l where op: "op = Set_irq_type irq l"
    by blast
  with s have st': "st' = upd_irq st (irq - offset st) (\<lambda>q. q\<lparr>lsi := l\<rparr>)"
    by (auto simp: xics_set_irq_type_def split: if_splits)
  show ?thesis
    unfolding msi_unsent_def
  proof (intro ballI impI)
    fix q'
    assume "q' \<in> set (irqs st')" and m: "\<not> lsi q'"
    then have "q' = (get_irq st (irq - offset st))\<lparr>lsi := l\<rparr> \<or> q' \<in> set (irqs st)"
      using set_update_subset_insert [of "irqs st" "nat (irq - offset st)"]
      unfolding st' upd_irq_def get_irq_def by auto
    then show "status q' AND XICS_STATUS_SENT = 0"
    proof
      assume "q' = (get_irq st (irq - offset st))\<lparr>lsi := l\<rparr>"
      with m r op show ?thesis
        by simp
    next
      assume "q' \<in> set (irqs st)"
      with u m show ?thesis
        by (simp add: msi_unsent_def)
    qed
  qed
next
  case False
  then have "sources_stepped st st'"
    using s by (intro xics_step_stepped) auto
  with u show ?thesis
    by (rule msi_unsent_stepped)
qed

lemma msi_unsent_run:
  "msi_unsent st \<Longrightarrow> retype_safe_run ipi st ops \<Longrightarrow> xics_run ipi st ops = Some st'
   \<Longrightarrow> msi_unsent st'"
proof (induction ops arbitrary: st)
  case Nil
  then show ?case by simp
next
  case (Cons op ops)
  from Cons.prems(3) obtain st1 where s: "xics_step ipi st op = Some st1"
    and r: "xics_run ipi st1 ops = Some st'"
    by (auto split: option.splits)
  from Cons.prems(2) s have "retype_safe st op" and "retype_safe_run ipi st1 ops"
    by simp_all
  with Cons.IH [OF msi_unsent_step [OF Cons.prems(1) s] _ r] show ?case
    by simp
qed

text \<open>
  Claim C10, as the code has it. In every state reached from \<^verbatim>\<open>xics_system_init\<close> by a run of
  operations in which \<^verbatim>\<open>xics_set_irq_type\<close> never makes a source message-signalled while
  its SENT bit is set, no message-signalled source has the SENT bit set: \<^verbatim>\<open>resend_lsi\<close> is
  the only function that sets SENT and every caller runs it for a level-sensitive source
  only, and the other functions at most clear the bit.
\<close>

theorem msi_never_sent:
  assumes "retype_safe_run ipi (xics_system_init n m) ops"
    and "xics_run ipi (xics_system_init n m) ops = Some st"
  shows "\<forall>q \<in> set (irqs st). \<not> lsi q \<longrightarrow> status q AND XICS_STATUS_SENT = 0"
  using msi_unsent_run [OF msi_unsent_init assms] by (simp add: msi_unsent_def)

text \<open>
  The claim C10 as it was stated is about every reachable state. \<^verbatim>\<open>xics_set_irq_type\<close>
  changes the type of a source and leaves its status: a level-sensitive source that has
  been sent (status ASSERTED and SENT) and is then made message-signalled is a
  message-signalled source with the SENT bit set.
\<close>

theorem retyped_source_sent_counterexample:
  "xics_run 2 (xics_system_init 1 1)
     [Set_irq_type 16 True, Reset, Hcall_cppr 0 0xff,
      Rtas_set_xive 3 (\<lambda>n. [16, 0, 5] ! n) 1, Set_irq 0 1, Set_irq_type 16 False]
   = Some \<lparr>ss = [\<lparr>xirr = 0xff000010, pending_priority = 5, mfrr = 0xff, output_pin = True\<rparr>],
        irqs = [\<lparr>server = 0, priority = 5, saved_priority = 5, status = 3, lsi = False\<rparr>],
        offset = 16,
        pin_trace = [(0, \<lparr>xirr = 0xff000010, pending_priority = 5, mfrr = 0xff, output_pin = True\<rparr>),
                     (0, \<lparr>xirr = 0, pending_priority = 0, mfrr = 0xff, output_pin = False\<rparr>)]\<rparr>
   \<and> lsi (get_irq \<lparr>ss = [\<lparr>xirr = 0xff000010, pending_priority = 5, mfrr = 0xff, output_pin = True\<rparr>],
        irqs = [\<lparr>server = 0, priority = 5, saved_priority = 5, status = 3, lsi = False\<rparr>],
        offset = 16,
        pin_trace = [(0, \<lparr>xirr = 0xff000010, pending_priority = 5, mfrr = 0xff, output_pin = True\<rparr>),
                     (0, \<lparr>xirr = 0, pending_priority = 0, mfrr = 0xff, output_pin = False\<rparr>)]\<rparr> 0) = False
   \<and> status (get_irq \<lparr>ss = [\<lparr>xirr = 0xff000010, pending_priority = 5, mfrr = 0xff, output_pin = True\<rparr>],
        irqs = [\<lparr>server = 0, priority = 5, saved_priority = 5, status = 3, lsi = False\<rparr>],
        offset = 16,
        pin_trace = [(0, \<lparr>xirr = 0xff000010, pending_priority = 5, mfrr = 0xff, output_pin = True\<rparr>),
                     (0, \<lparr>xirr = 0, pending_priority = 0, mfrr = 0xff, output_pin = False\<rparr>)]\<rparr> 0) AND XICS_STATUS_SENT = XICS_STATUS_SENT"
  by code_simp

theorem msi_never_sent_witness:
  "retype_safe_run 2 (xics_system_init 2 1)
     [Set_irq_type 16 True, Reset, Hcall_cppr 0 0xff,
      Rtas_set_xive 3 (\<lambda>n. [16, 0, 5] ! n) 1, Rtas_set_xive 3 (\<lambda>n. [17, 0, 7] ! n) 1,
      Set_irq 0 1, Set_irq 1 1]
   \<and> xics_run 2 (xics_system_init 2 1)
     [Set_irq_type 16 True, Reset, Hcall_cppr 0 0xff,
      Rtas_set_xive 3 (\<lambda>n. [16, 0, 5] ! n) 1, Rtas_set_xive 3 (\<lambda>n. [17, 0, 7] ! n) 1,
      Set_irq 0 1, Set_irq 1 1]
     = Some \<lparr>ss = [\<lparr>xirr = 0xff000010, pending_priority = 5, mfrr = 0xff, output_pin = True\<rparr>],
        irqs = [\<lparr>server = 0, priority = 5, saved_priority = 5, status = 3, lsi = True\<rparr>,
                \<lparr>server = 0, priority = 7, saved_priority = 7, status = 4, lsi = False\<rparr>],
        offset = 16,
        pin_trace = [(0, \<lparr>xirr = 0xff000010, pending_priority = 5, mfrr = 0xff, output_pin = True\<rparr>),
                     (0, \<lparr>xirr = 0, pending_priority = 0, mfrr = 0xff, output_pin = False\<rparr>)]\<rparr>
   \<and> lsi (get_irq \<lparr>ss = [\<lparr>xirr = 0xff000010, pending_priority = 5, mfrr = 0xff, output_pin = True\<rparr>],
        irqs = [\<lparr>server = 0, priority = 5, saved_priority = 5, status = 3, lsi = True\<rparr>,
                \<lparr>server = 0, priority = 7, saved_priority = 7, status = 4, lsi = False\<rparr>],
        offset = 16,
        pin_trace = [(0, \<lparr>xirr = 0xff000010, pending_priority = 5, mfrr = 0xff, output_pin = True\<rparr>),
                     (0, \<lparr>xirr = 0, pending_priority = 0, mfrr = 0xff, output_pin = False\<rparr>)]\<rparr> 1) = False
   \<and> status (get_irq \<lparr>ss = [\<lparr>xirr = 0xff000010, pending_priority = 5, mfrr = 0xff, output_pin = True\<rparr>],
        irqs = [\<lparr>server = 0, priority = 5, saved_priority = 5, status = 3, lsi = True\<rparr>,
                \<lparr>server = 0, priority = 7, saved_priority = 7, status = 4, lsi = False\<rparr>],
        offset = 16,
        pin_trace = [(0, \<lparr>xirr = 0xff000010, pending_priority = 5, mfrr = 0xff, output_pin = True\<rparr>),
                     (0, \<lparr>xirr = 0, pending_priority = 0, mfrr = 0xff, output_pin = False\<rparr>)]\<rparr> 1) AND XICS_STATUS_SENT = 0"
proof -
  let ?F = "\<lparr>ss = [\<lparr>xirr = 0xff000010, pending_priority = 5, mfrr = 0xff, output_pin = True\<rparr>],
        irqs = [\<lparr>server = 0, priority = 5, saved_priority = 5, status = 3, lsi = True\<rparr>,
                \<lparr>server = 0, priority = 7, saved_priority = 7, status = 4, lsi = False\<rparr>],
        offset = 16,
        pin_trace = [(0, \<lparr>xirr = 0xff000010, pending_priority = 5, mfrr = 0xff, output_pin = True\<rparr>),
                     (0, \<lparr>xirr = 0, pending_priority = 0, mfrr = 0xff, output_pin = False\<rparr>)]\<rparr>"
  have a: "retype_safe_run 2 (xics_system_init 2 1)
     [Set_irq_type 16 True, Reset, Hcall_cppr 0 0xff,
      Rtas_set_xive 3 (\<lambda>n. [16, 0, 5] ! n) 1, Rtas_set_xive 3 (\<lambda>n. [17, 0, 7] ! n) 1,
      Set_irq 0 1, Set_irq 1 1]"
    by code_simp
  have b: "xics_run 2 (xics_system_init 2 1)
     [Set_irq_type 16 True, Reset, Hcall_cppr 0 0xff,
      Rtas_set_xive 3 (\<lambda>n. [16, 0, 5] ! n) 1, Rtas_set_xive 3 (\<lambda>n. [17, 0, 7] ! n) 1,
      Set_irq 0 1, Set_irq 1 1]
     = Some ?F"
    by code_simp
  have m: "get_irq ?F 1 \<in> set (irqs ?F)" "lsi (get_irq ?F 1) = False"
    by (simp_all add: get_irq_def)
  from msi_never_sent [OF a b] m have "status (get_irq ?F 1) AND XICS_STATUS_SENT = 0"
    by blast
  with a b m show ?thesis
    by blast
qed

subsection \<open>The priority gate of the output pin\<close>

lemma trace_gated_upd [simp]:
  "trace_gated (upd_ss st sv f) = trace_gated st"
  "trace_gated (upd_irq st i g) = trace_gated st"
  by (simp_all add: trace_gated_def)

lemma trace_gated_lower:
  "ss_valid st sv \<Longrightarrow> trace_gated st \<Longrightarrow> trace_gated (qemu_set_irq st sv False)"
  by (simp add: trace_gated_def raise_gated_def)

lemma trace_gated_raise:
  assumes "ss_valid st sv" and "trace_gated st"
    and "ucast (pending_priority (get_ss st sv)) < CPPR (get_ss st sv)"
  shows "trace_gated (qemu_set_irq st sv True)"
  using assms by (simp add: trace_gated_def raise_gated_def CPPR_def)

lemma ics_reject_gated:
  "ics_reject st nr = Some st' \<Longrightarrow> trace_gated st \<Longrightarrow> trace_gated st'"
  by (simp add: trace_gated_def ics_reject_frame)

lemma ics_eoi_gated:
  "ics_eoi st nr = Some st' \<Longrightarrow> trace_gated st \<Longrightarrow> trace_gated st'"
  by (auto simp: ics_eoi_def Let_def split: if_splits)

lemma cppr_or_ipi: "drop_bit 24 x \<le> drop_bit 24 ((x AND NOT XISR_MASK) OR (ipi :: 32 word))"
proof -
  have "drop_bit 24 ((x AND NOT XISR_MASK) OR ipi) = drop_bit 24 x OR drop_bit 24 ipi"
    unfolding XISR_MASK_mask
    by (rule bit_word_eqI) (auto simp: bit_simps dest: bit_imp_le_length)
  then show ?thesis
    by (simp add: le_word_or2)
qed

lemma icp_irq_gated:
  assumes "icp_irq st sv nr prio = Some st'" and g: "trace_gated st"
  shows "trace_gated st'"
proof -
  have v: "ss_valid st sv"
    using assms by (auto simp: icp_irq_def split: if_splits)
  show ?thesis
  proof (cases "CPPR (get_ss st sv) \<le> ucast prio
            \<or> (XISR (get_ss st sv) \<noteq> 0 \<and> pending_priority (get_ss st sv) \<le> prio)")
    case True
    then have "ics_reject st nr = Some st'"
      using assms v by (simp add: icp_irq_def)
    then show ?thesis
      using g by (rule ics_reject_gated)
  next
    case False
    let ?F = "\<lambda>s. s\<lparr>xirr := (xirr s AND NOT XISR_MASK) OR (word_of_int nr AND XISR_MASK),
                    pending_priority := prio\<rparr>"
    from False obtain st1 where
      o: "(if XISR (get_ss st sv) \<noteq> 0 then ics_reject st (uint (XISR (get_ss st sv)))
           else Some st) = Some st1"
      and r: "st' = qemu_irq_raise (upd_ss st1 sv ?F) sv"
      using assms v unfolding icp_irq_def if_not_P [OF False]
      by (auto split: option.splits)
    have fr: "ss st1 = ss st"
      using o by (auto simp: ics_reject_frame split: if_splits)
    then have v1: "ss_valid st1 sv" and gs: "get_ss st1 sv = get_ss st sv"
      using v by (simp_all add: ss_valid_def nr_servers_def get_ss_def)
    have g1: "trace_gated st1"
      using o g by (auto split: if_splits elim: ics_reject_gated)
    have c: "CPPR (?F (get_ss st1 sv)) = CPPR (get_ss st sv)"
      unfolding gs by (rule CPPR_eqI [where w = "word_of_int nr"]) simp
    have "ucast prio < CPPR (get_ss st sv)"
      using False by (simp add: not_le)
    then have "ucast (pending_priority (get_ss (upd_ss st1 sv ?F) sv))
                 < CPPR (get_ss (upd_ss st1 sv ?F) sv)"
      using v1 c by simp
    then show ?thesis
      unfolding r qemu_irq_raise_def using v1 g1 by (intro trace_gated_raise) simp_all
  qed
qed

lemma icp_check_ipi_gated:
  assumes "icp_check_ipi ipi st sv = Some st'" and g: "trace_gated st"
    and m: "ucast (mfrr (get_ss st sv)) < CPPR (get_ss st sv)"
  shows "trace_gated st'"
proof -
  have v: "ss_valid st sv"
    using assms by (auto simp: icp_check_ipi_def split: if_splits)
  show ?thesis
  proof (cases "XISR (get_ss st sv) \<noteq> 0 \<and> pending_priority (get_ss st sv) \<le> mfrr (get_ss st sv)")
    case True
    then have "st' = st"
      using assms v by (simp add: icp_check_ipi_def)
    then show ?thesis
      using g by simp
  next
    case False
    let ?F = "\<lambda>s. s\<lparr>xirr := (xirr s AND NOT XISR_MASK) OR ipi, pending_priority := mfrr s\<rparr>"
    from False obtain st1 where
      o: "(if XISR (get_ss st sv) \<noteq> 0 then ics_reject st (uint (XISR (get_ss st sv)))
           else Some st) = Some st1"
      and r: "st' = qemu_irq_raise (upd_ss st1 sv ?F) sv"
      using assms v unfolding icp_check_ipi_def if_not_P [OF False]
      by (auto split: option.splits)
    have fr: "ss st1 = ss st"
      using o by (auto simp: ics_reject_frame split: if_splits)
    then have v1: "ss_valid st1 sv" and gs: "get_ss st1 sv = get_ss st sv"
      using v by (simp_all add: ss_valid_def nr_servers_def get_ss_def)
    have g1: "trace_gated st1"
      using o g by (auto split: if_splits elim: ics_reject_gated)
    have "CPPR (get_ss st sv) \<le> CPPR (?F (get_ss st sv))"
      unfolding CPPR_def using cppr_or_ipi [of "xirr (get_ss st sv)" ipi] by simp
    with m have "ucast (mfrr (get_ss st sv)) < CPPR (?F (get_ss st sv))"
      by (rule less_le_trans)
    then have "ucast (pending_priority (get_ss (upd_ss st1 sv ?F) sv))
                 < CPPR (get_ss (upd_ss st1 sv ?F) sv)"
      using v1 gs by simp
    then show ?thesis
      unfolding r qemu_irq_raise_def using v1 g1 by (intro trace_gated_raise) simp_all
  qed
qed

lemma resend_msi_gated:
  "resend_msi st i = Some st' \<Longrightarrow> trace_gated st \<Longrightarrow> trace_gated st'"
  by (auto simp: resend_msi_def Let_def split: if_splits elim!: icp_irq_gated)

lemma resend_lsi_gated:
  "resend_lsi st i = Some st' \<Longrightarrow> trace_gated st \<Longrightarrow> trace_gated st'"
  by (auto simp: resend_lsi_def Let_def split: if_splits elim!: icp_irq_gated)

lemma ics_resend_body_gated:
  "ics_resend_body st i = Some st' \<Longrightarrow> trace_gated st \<Longrightarrow> trace_gated st'"
  by (auto simp: ics_resend_body_def split: if_splits elim: resend_lsi_gated resend_msi_gated)

lemma ics_resend_loop_gated:
  "ics_resend_loop st i = Some st' \<Longrightarrow> trace_gated st \<Longrightarrow> trace_gated st'"
proof (induction st i rule: ics_resend_loop.induct)
  case (1 st i)
  show ?case
  proof (cases "int i < nr_irqs st")
    case True
    with "1.prems"(1) obtain st1 where b: "ics_resend_body st i = Some st1"
      and l: "ics_resend_loop st1 (Suc i) = Some st'"
      by (subst (asm) ics_resend_loop.simps) (auto split: option.splits)
    from b "1.prems"(2) have "trace_gated st1"
      by (rule ics_resend_body_gated)
    with "1.IH" [OF True b l] show ?thesis .
  next
    case False
    with "1.prems" show ?thesis
      by (subst (asm) ics_resend_loop.simps) simp
  qed
qed

lemma icp_resend_gated:
  "icp_resend ipi st sv = Some st' \<Longrightarrow> trace_gated st \<Longrightarrow> trace_gated st'"
  by (auto simp: icp_resend_def ics_resend_def split: if_splits option.splits
           elim!: ics_resend_loop_gated dest: icp_check_ipi_gated)

lemma icp_set_cppr_gated:
  "icp_set_cppr ipi st sv cppr = Some st' \<Longrightarrow> trace_gated st \<Longrightarrow> trace_gated st'"
  by (auto simp: icp_set_cppr_def Let_def qemu_irq_lower_def split: if_splits
           elim!: icp_resend_gated ics_reject_gated intro!: trace_gated_lower)

lemma icp_set_mfrr_gated:
  "icp_set_mfrr ipi st sv m = Some st' \<Longrightarrow> trace_gated st \<Longrightarrow> trace_gated st'"
  by (auto simp: icp_set_mfrr_def Let_def split: if_splits elim!: icp_check_ipi_gated)

lemma icp_accept_gated:
  "icp_accept st sv = Some (x, st') \<Longrightarrow> trace_gated st \<Longrightarrow> trace_gated st'"
  by (auto simp: icp_accept_def Let_def qemu_irq_lower_def split: if_splits
           intro!: trace_gated_lower)

lemma icp_eoi_gated:
  "icp_eoi ipi st sv x = Some st' \<Longrightarrow> trace_gated st \<Longrightarrow> trace_gated st'"
  by (auto simp: icp_eoi_def Let_def split: if_splits option.splits
           elim!: icp_resend_gated dest!: ics_eoi_gated)

lemma ics_set_irq_gated:
  "ics_set_irq st i val = Some st' \<Longrightarrow> trace_gated st \<Longrightarrow> trace_gated st'"
  by (auto simp: ics_set_irq_def set_irq_lsi_def set_irq_msi_def Let_def split: if_splits
           elim!: resend_lsi_gated icp_irq_gated)

lemma ics_write_xive_gated:
  "ics_write_xive st nr sv prio saved = Some st' \<Longrightarrow> trace_gated st \<Longrightarrow> trace_gated st'"
  by (auto simp: ics_write_xive_def write_xive_lsi_def write_xive_msi_def Let_def
           split: if_splits elim!: resend_lsi_gated icp_irq_gated)

lemma reset_loop_gated:
  assumes "\<forall>i \<in> set is. i < length (ss st)" and "trace_gated st"
  shows "trace_gated (fold (\<lambda>i s. qemu_set_irq (upd_ss s (int i) f) (int i) False) is st)"
  using assms
proof (induction "is" arbitrary: st)
  case Nil
  then show ?case by simp
next
  case (Cons i "is")
  have v: "ss_valid (upd_ss st (int i) f) (int i)"
    using Cons.prems(1) by (simp add: ss_valid_def nr_servers_def)
  have "trace_gated (qemu_set_irq (upd_ss st (int i) f) (int i) False)"
    using v Cons.prems(2) by (intro trace_gated_lower) simp_all
  then show ?case
    using Cons.prems(1) by (simp add: Cons.IH)
qed

lemma xics_reset_gated: "trace_gated st \<Longrightarrow> trace_gated (xics_reset st)"
  using reset_loop_gated [of "[0 ..< length (ss st)]" st]
  by (simp add: xics_reset_def Let_def trace_gated_def)

lemma xics_step_gated:
  assumes "xics_step ipi st op = Some st'" and "trace_gated st"
  shows "trace_gated st'"
proof (cases op)
  case (Set_irq srcno val)
  then show ?thesis
    using assms by (auto elim: ics_set_irq_gated)
next
  case (Hcall_cppr cpu a0)
  then show ?thesis
    using assms by (auto simp: h_cppr_def split: option.splits elim: icp_set_cppr_gated)
next
  case (Hcall_ipi a0 a1)
  then show ?thesis
    using assms
    by (auto simp: h_ipi_def split: option.splits if_splits elim: icp_set_mfrr_gated)
next
  case (Hcall_xirr cpu)
  then show ?thesis
    using assms by (auto simp: h_xirr_def split: option.splits elim: icp_accept_gated)
next
  case (Hcall_eoi cpu a0)
  then show ?thesis
    using assms by (auto simp: h_eoi_def split: option.splits elim: icp_eoi_gated)
next
  case (Rtas_set_xive nargs args nret)
  then show ?thesis
    using assms
    by (auto simp: rtas_set_xive_def Let_def split: option.splits if_splits
             elim: ics_write_xive_gated)
next
  case (Rtas_get_xive nargs args nret)
  then show ?thesis
    using assms by (auto simp: rtas_get_xive_def Let_def split: if_splits)
next
  case (Rtas_int_off nargs args nret)
  then show ?thesis
    using assms
    by (auto simp: rtas_int_off_def Let_def split: option.splits if_splits
             elim: ics_write_xive_gated)
next
  case (Rtas_int_on nargs args nret)
  then show ?thesis
    using assms
    by (auto simp: rtas_int_on_def Let_def split: option.splits if_splits
             elim: ics_write_xive_gated)
next
  case Reset
  then show ?thesis
    using assms by (auto simp: xics_reset_gated)
next
  case (Set_irq_type irq l)
  then show ?thesis
    using assms by (auto simp: xics_set_irq_type_def split: if_splits)
qed

lemma xics_run_gated:
  "xics_run ipi st ops = Some st' \<Longrightarrow> trace_gated st \<Longrightarrow> trace_gated st'"
proof (induction ops arbitrary: st)
  case Nil
  then show ?case by simp
next
  case (Cons op ops)
  from Cons.prems(1) obtain st1 where s: "xics_step ipi st op = Some st1"
    and r: "xics_run ipi st1 ops = Some st'"
    by (auto split: option.splits)
  from s Cons.prems(2) have "trace_gated st1"
    by (rule xics_step_gated)
  with r show ?case
    by (rule Cons.IH)
qed

text \<open>
  Claim C2. In every run of operations from \<^verbatim>\<open>xics_system_init\<close>, every raise of an output
  pin happens at a moment at which the pending priority of that presenter is below its
  CPPR, in particular every raise with XISR \<open>\<noteq> 0\<close>. This covers the raises of
  \<^verbatim>\<open>icp_irq\<close>, which installs a source only if \<open>priority < CPPR\<close>, and those of
  \<^verbatim>\<open>icp_check_ipi\<close>, whose two callers test \<open>mfrr < CPPR\<close> first; it holds for every value
  of \<^verbatim>\<open>XICS_IPI\<close>. The pin trace records each raise with the registers at its moment;
  later calls such as \<^verbatim>\<open>icp_eoi\<close> may change CPPR while the pin stays raised.
\<close>

theorem priority_gate:
  assumes "xics_run ipi (xics_system_init n m) ops = Some st"
  shows "\<forall>e \<in> set (pin_trace st).
           output_pin (snd e) \<and> XISR (snd e) \<noteq> 0 \<longrightarrow>
           ucast (pending_priority (snd e)) < CPPR (snd e)"
proof -
  have "trace_gated (xics_system_init n m)"
    by (simp add: trace_gated_def xics_system_init_def)
  with assms have "trace_gated st"
    by (rule xics_run_gated)
  then show ?thesis
    by (simp add: trace_gated_def raise_gated_def)
qed

theorem priority_gate_witness:
  "xics_run 2 (xics_system_init 4 2)
     [Reset, Hcall_cppr 0 0xff, Rtas_set_xive 3 (\<lambda>n. [16, 0, 5] ! n) 1, Set_irq 0 1,
      Rtas_set_xive 3 (\<lambda>n. [17, 0, 2] ! n) 1, Set_irq 1 1]
     = Some \<lparr>ss = [\<lparr>xirr = 0xff000011, pending_priority = 2, mfrr = 0xff, output_pin = True\<rparr>,
              \<lparr>xirr = 0, pending_priority = 0, mfrr = 0xff, output_pin = False\<rparr>],
        irqs = [\<lparr>server = 0, priority = 5, saved_priority = 5, status = 4, lsi = False\<rparr>,
                \<lparr>server = 0, priority = 2, saved_priority = 2, status = 0, lsi = False\<rparr>,
                \<lparr>server = 0, priority = 0xff, saved_priority = 0xff, status = 0, lsi = False\<rparr>,
                \<lparr>server = 0, priority = 0xff, saved_priority = 0xff, status = 0, lsi = False\<rparr>],
        offset = 16,
        pin_trace = [(0, \<lparr>xirr = 0xff000011, pending_priority = 2, mfrr = 0xff, output_pin = True\<rparr>),
                     (0, \<lparr>xirr = 0xff000010, pending_priority = 5, mfrr = 0xff, output_pin = True\<rparr>),
                     (1, \<lparr>xirr = 0, pending_priority = 0, mfrr = 0xff, output_pin = False\<rparr>),
                     (0, \<lparr>xirr = 0, pending_priority = 0, mfrr = 0xff, output_pin = False\<rparr>)]\<rparr>
   \<and> (0, \<lparr>xirr = 0xff000011, pending_priority = 2, mfrr = 0xff, output_pin = True\<rparr>)
       \<in> set (pin_trace \<lparr>ss = [\<lparr>xirr = 0xff000011, pending_priority = 2, mfrr = 0xff, output_pin = True\<rparr>,
              \<lparr>xirr = 0, pending_priority = 0, mfrr = 0xff, output_pin = False\<rparr>],
        irqs = [\<lparr>server = 0, priority = 5, saved_priority = 5, status = 4, lsi = False\<rparr>,
                \<lparr>server = 0, priority = 2, saved_priority = 2, status = 0, lsi = False\<rparr>,
                \<lparr>server = 0, priority = 0xff, saved_priority = 0xff, status = 0, lsi = False\<rparr>,
                \<lparr>server = 0, priority = 0xff, saved_priority = 0xff, status = 0, lsi = False\<rparr>],
        offset = 16,
        pin_trace = [(0, \<lparr>xirr = 0xff000011, pending_priority = 2, mfrr = 0xff, output_pin = True\<rparr>),
                     (0, \<lparr>xirr = 0xff000010, pending_priority = 5, mfrr = 0xff, output_pin = True\<rparr>),
                     (1, \<lparr>xirr = 0, pending_priority = 0, mfrr = 0xff, output_pin = False\<rparr>),
                     (0, \<lparr>xirr = 0, pending_priority = 0, mfrr = 0xff, output_pin = False\<rparr>)]\<rparr>)
   \<and> output_pin \<lparr>xirr = 0xff000011, pending_priority = 2, mfrr = 0xff, output_pin = True\<rparr>
   \<and> ucast (pending_priority \<lparr>xirr = 0xff000011, pending_priority = 2, mfrr = 0xff, output_pin = True\<rparr>)
        < CPPR \<lparr>xirr = 0xff000011, pending_priority = 2, mfrr = 0xff, output_pin = True\<rparr>"
proof -
  let ?F = "\<lparr>ss = [\<lparr>xirr = 0xff000011, pending_priority = 2, mfrr = 0xff, output_pin = True\<rparr>,
              \<lparr>xirr = 0, pending_priority = 0, mfrr = 0xff, output_pin = False\<rparr>],
        irqs = [\<lparr>server = 0, priority = 5, saved_priority = 5, status = 4, lsi = False\<rparr>,
                \<lparr>server = 0, priority = 2, saved_priority = 2, status = 0, lsi = False\<rparr>,
                \<lparr>server = 0, priority = 0xff, saved_priority = 0xff, status = 0, lsi = False\<rparr>,
                \<lparr>server = 0, priority = 0xff, saved_priority = 0xff, status = 0, lsi = False\<rparr>],
        offset = 16,
        pin_trace = [(0, \<lparr>xirr = 0xff000011, pending_priority = 2, mfrr = 0xff, output_pin = True\<rparr>),
                     (0, \<lparr>xirr = 0xff000010, pending_priority = 5, mfrr = 0xff, output_pin = True\<rparr>),
                     (1, \<lparr>xirr = 0, pending_priority = 0, mfrr = 0xff, output_pin = False\<rparr>),
                     (0, \<lparr>xirr = 0, pending_priority = 0, mfrr = 0xff, output_pin = False\<rparr>)]\<rparr>"
  let ?e = "(0 :: int, \<lparr>xirr = 0xff000011, pending_priority = 2, mfrr = 0xff, output_pin = True\<rparr>)"
  have r: "xics_run 2 (xics_system_init 4 2)
     [Reset, Hcall_cppr 0 0xff, Rtas_set_xive 3 (\<lambda>n. [16, 0, 5] ! n) 1, Set_irq 0 1,
      Rtas_set_xive 3 (\<lambda>n. [17, 0, 2] ! n) 1, Set_irq 1 1]
     = Some ?F"
    by code_simp
  have m: "?e \<in> set (pin_trace ?F)"
    by simp
  have o: "output_pin (snd ?e)" "XISR (snd ?e) \<noteq> 0"
    by (simp_all add: XISR_def XISR_MASK_def)
  from priority_gate [OF r, THEN bspec, OF m] o
  have "ucast (pending_priority (snd ?e)) < CPPR (snd ?e)"
    by blast
  with r m o show ?thesis
    by simp
qed

end
